theory Spec2Isabelle
  imports Complex_Main "HOL-Library.AList"
begin

section \<open>Host values and host errors\<close>

text \<open>
  The three interpreters (\<^verbatim>\<open>lisp.py\<close>, \<^verbatim>\<open>lisp2.py\<close>, \<^verbatim>\<open>lisp3.py\<close>) represent both
  programs and run-time data as plain Python objects. The embedding covers integers,
  finite floats, booleans, \<^verbatim>\<open>None\<close>, strings (symbols and string literals are both
  \<^verbatim>\<open>str\<close>), lists and the callable objects of each interpreter. Strings are lists of
  8-bit characters, read as code points below 256. Standard output (\<^verbatim>\<open>print\<close>) is not
  recorded.

  A finite float is \<open>VFloat q\<close>, with \<open>q\<close> its exact value (every finite float is a
  rational number); \<^verbatim>\<open>0.0\<close> and \<^verbatim>\<open>-0.0\<close>, which \<^verbatim>\<open>==\<close> and truth do not tell apart,
  are one value. Infinities and NaN are not represented. Floats can be held, tested
  for truth, compared and negated exactly. Float arithmetic that rounds is not
  computed: where an operation would be carried out in floats, the model stops with
  the marker \<open>FloatArithmetic\<close>, which is not a Python exception.

  Objects compared by identity in Python (procedures, closures, host functions) carry
  a unique number, drawn from a counter in the store when the object is created.
  Dictionaries live in the store and are referred to by address, since the source
  shares and mutates them.
\<close>

datatype error =
    SyntaxError string
  | NameError string
  | TypeError string
  | ValueError
  | IndexError
  | KeyError
  | ZeroDivisionError
  | AssertionError
  | FloatArithmetic

datatype builtin =
    B_add | B_sub | B_mul | B_div | B_gt | B_lt | B_ge | B_le | B_num_eq | B_eq
  | B_cons | B_car | B_cdr | B_list | B_is_list | B_is_null | B_print

datatype primop =
    Prim_atom | Prim_eq | Prim_cons | Prim_car | Prim_cdr
  | Prim_add | Prim_sub | Prim_mul | Prim_div

datatype 'c val =
    VInt int
  | VFloat rat
  | VBool bool
  | VNone
  | VStr string
  | VList "'c val list"
  | VObj 'c

text \<open>
  \<open>VObj\<close> holds the callable objects, which differ between the interpreters:
  \<^item> \<open>Builtin b\<close>: an entry of \<^verbatim>\<open>PRIMITIVES\<close> in \<^verbatim>\<open>lisp.py\<close> (a host lambda);
  \<^item> \<open>Procedure i params body env\<close>: a \<^verbatim>\<open>Procedure\<close> of \<^verbatim>\<open>lisp.py\<close>, with the
    address of the \<^verbatim>\<open>Env\<close> it was created in;
  \<^item> \<open>Prim2 p a\<close>, \<open>Prim3 p a\<close>: the function \<^verbatim>\<open>prim_...\<close> created by the call of
    \<^verbatim>\<open>make_global_env\<close> (of \<^verbatim>\<open>lisp2.py\<close>, \<^verbatim>\<open>lisp3.py\<close>) that built the dictionary at
    address \<open>a\<close>;
  \<^item> \<open>Closure i params body env\<close>: a \<^verbatim>\<open>Closure\<close> of \<^verbatim>\<open>lisp2.py\<close>, \<open>env\<close> being the
    address of its private copy of the defining dictionary;
  \<^item> \<open>Fn i params body env\<close>: the host function \<^verbatim>\<open>fn\<close> built by \<^verbatim>\<open>lambda\<close> and
    \<^verbatim>\<open>defun\<close> in \<^verbatim>\<open>lisp3.py\<close>, \<open>env\<close> being the address of the dictionary it closes over.
\<close>

datatype obj1 = Builtin builtin | Procedure nat "obj1 val" "obj1 val" nat

datatype obj2 = Prim2 primop nat | Closure nat "obj2 val" "obj2 val" nat

datatype obj3 = Prim3 primop nat | Fn nat "obj3 val" "obj3 val" nat

section \<open>Reading integers: \<^verbatim>\<open>int(token)\<close> and \<^verbatim>\<open>str(n)\<close>\<close>

definition py_isspace :: "char \<Rightarrow> bool" where
  "py_isspace c = (let n = (of_char c :: nat) in
     (9 \<le> n \<and> n \<le> 13) \<or> (28 \<le> n \<and> n \<le> 32) \<or> n = 133 \<or> n = 160)"

definition is_digit :: "char \<Rightarrow> bool" where
  "is_digit c = (let n = (of_char c :: nat) in 48 \<le> n \<and> n \<le> 57)"

definition digit_val :: "char \<Rightarrow> nat" where
  "digit_val c = of_char c - 48"

definition digit_char :: "nat \<Rightarrow> char" where
  "digit_char d = char_of (48 + d)"

definition py_strip :: "string \<Rightarrow> string" where
  "py_strip s = rev (dropWhile py_isspace (rev (dropWhile py_isspace s)))"

text \<open>A digit, then digits or single underscores that are each followed by a digit.\<close>

fun digitpart :: "nat \<Rightarrow> string \<Rightarrow> nat option" where
  "digitpart acc [] = Some acc"
| "digitpart acc [c] = (if is_digit c then Some (10 * acc + digit_val c) else None)"
| "digitpart acc (c # d # r) =
     (if is_digit c then digitpart (10 * acc + digit_val c) (d # r)
      else if c = CHR ''_'' \<and> is_digit d then digitpart (10 * acc + digit_val d) r
      else None)"

definition py_digits :: "string \<Rightarrow> nat option" where
  "py_digits s = (case s of [] \<Rightarrow> None
     | c # r \<Rightarrow> if is_digit c then digitpart (digit_val c) r else None)"

text \<open>
  \<^verbatim>\<open>int(token)\<close> in base ten; \<open>None\<close> stands for \<^verbatim>\<open>ValueError\<close>. The limit on the
  number of digits that recent CPython versions enforce is not modelled.
\<close>

definition py_int :: "string \<Rightarrow> int option" where
  "py_int token = (case py_strip token of
       [] \<Rightarrow> None
     | c # r \<Rightarrow>
         if c = CHR ''-'' then map_option (\<lambda>n. - int n) (py_digits r)
         else if c = CHR ''+'' then map_option int (py_digits r)
         else map_option int (py_digits (c # r)))"

function digits_of :: "nat \<Rightarrow> string" where
  "digits_of n = (if n < 10 then [digit_char n] else digits_of (n div 10) @ [digit_char (n mod 10)])"
  by pat_completeness auto
termination digits_of
  by (relation "measure (\<lambda>n. n)") auto

declare digits_of.simps [simp del]

definition py_str_int :: "int \<Rightarrow> string" where
  "py_str_int i = (if i < 0 then CHR ''-'' # digits_of (nat (- i)) else digits_of (nat i))"

section \<open>Parsers\<close>

subsection \<open>Atom classification\<close>

text \<open>
  \<^verbatim>\<open>atom\<close> of \<^verbatim>\<open>lisp.py\<close> and of \<^verbatim>\<open>lisp3.py\<close> try \<^verbatim>\<open>float(token)\<close> after
  \<^verbatim>\<open>int(token)\<close>. The float reader is the parameter \<open>rd\<close>: \<open>rd token = None\<close> when
  \<^verbatim>\<open>float(token)\<close> raises \<^verbatim>\<open>ValueError\<close>, and \<open>rd token = Some f\<close> when it succeeds,
  \<open>f\<close> being the float that was read.
\<close>

definition lisp_atom :: "(string \<Rightarrow> 'c val option) \<Rightarrow> string \<Rightarrow> 'c val" where
  "lisp_atom rd token =
     (if 2 \<le> length token \<and> hd token = CHR 0x22 \<and> last token = CHR 0x22
      then VStr (butlast (tl token))
      else case py_int token of
             Some n \<Rightarrow> VInt n
           | None \<Rightarrow> (case rd token of Some f \<Rightarrow> f | None \<Rightarrow> VStr token))"

definition atomize :: "string \<Rightarrow> 'c val" where
  "atomize token = (case py_int token of Some n \<Rightarrow> VInt n | None \<Rightarrow> VStr token)"

definition lisp3_atom :: "(string \<Rightarrow> 'c val option) \<Rightarrow> string \<Rightarrow> 'c val" where
  "lisp3_atom rd token =
     (case py_int token of
        Some n \<Rightarrow> VInt n
      | None \<Rightarrow> (case rd token of Some f \<Rightarrow> f | None \<Rightarrow> VStr token))"

subsection \<open>\<^verbatim>\<open>parse\<close> of \<^verbatim>\<open>lisp.py\<close>\<close>

text \<open>
  \<^verbatim>\<open>parse\<close> pops tokens off the front of a list it mutates; the model returns the
  tokens that are left next to the result. The \<^verbatim>\<open>while tokens[0] != ')'\<close> loop is
  \<open>lisp_parse_loop\<close>, with the list \<^verbatim>\<open>L\<close> built so far; \<^verbatim>\<open>tokens[0]\<close> on an empty
  list raises \<^verbatim>\<open>IndexError\<close>.
\<close>

function lisp_parse :: "(string \<Rightarrow> 'c val) \<Rightarrow> string list \<Rightarrow> (error + 'c val) \<times> string list"
  and lisp_parse_loop :: "(string \<Rightarrow> 'c val) \<Rightarrow> 'c val list \<Rightarrow> string list \<Rightarrow> (error + 'c val) \<times> string list"
where
  "lisp_parse atom tokens =
     (case tokens of
        [] \<Rightarrow> (Inl (SyntaxError ''unexpected EOF while reading''), [])
      | token # rest \<Rightarrow>
          if token = ''('' then lisp_parse_loop atom [] rest
          else if token = '')'' then (Inl (SyntaxError ''unexpected )''), rest)
          else (Inr (atom token), rest))"
| "lisp_parse_loop atom L tokens =
     (case tokens of
        [] \<Rightarrow> (Inl IndexError, [])
      | t # rest \<Rightarrow>
          if t \<noteq> '')'' then
            (case lisp_parse atom tokens of
               (Inl e, tokens') \<Rightarrow> (Inl e, tokens')
             | (Inr v, tokens') \<Rightarrow> lisp_parse_loop atom (L @ [v]) tokens')
          else (Inr (VList L), rest))"
  by pat_completeness auto

lemma lisp_parse_shrinks:
  "lisp_parse_lisp_parse_loop_dom (Inl (atom, tokens)) \<Longrightarrow>
     length (snd (lisp_parse atom tokens)) \<le> length tokens - 1"
  "lisp_parse_lisp_parse_loop_dom (Inr (atom, L, tokens)) \<Longrightarrow>
     length (snd (lisp_parse_loop atom L tokens)) \<le> length tokens"
proof (induction atom tokens and atom L tokens rule: lisp_parse_lisp_parse_loop.pinduct)
  case (1 atom tokens)
  then show ?case
    by (cases tokens) (auto simp: lisp_parse.psimps split: prod.splits sum.splits)
next
  case (2 atom L tokens)
  then show ?case
    by (cases tokens) (fastforce simp: lisp_parse_loop.psimps split: prod.splits sum.splits)+
qed

termination lisp_parse
  apply (relation "measure (\<lambda>x. case x of Inl (a, ts) \<Rightarrow> 2 * length ts
                                      | Inr (a, L, ts) \<Rightarrow> 2 * length ts + 1)")
     apply simp
    apply simp
   apply simp
  subgoal for atom L tokens
    using lisp_parse_shrinks(1)[of atom tokens] by (cases "lisp_parse atom tokens") auto
  done

declare lisp_parse.simps [simp del] lisp_parse_loop.simps [simp del]

subsection \<open>\<^verbatim>\<open>parse\<close> of \<^verbatim>\<open>lisp2.py\<close>\<close>

text \<open>
  The second prototype adds the quote shorthand and, inside the loop, a check for an
  empty token list after each element. The loop condition itself is unchanged, so it is
  still evaluated on the empty list when nothing follows the opening parenthesis. Its
  atom reader is \<open>atomize\<close>; the parameter keeps the three parsers alike.
\<close>

function lisp2_parse :: "(string \<Rightarrow> 'c val) \<Rightarrow> string list \<Rightarrow> (error + 'c val) \<times> string list"
  and lisp2_parse_loop :: "(string \<Rightarrow> 'c val) \<Rightarrow> 'c val list \<Rightarrow> string list \<Rightarrow> (error + 'c val) \<times> string list"
where
  "lisp2_parse atom tokens =
     (case tokens of
        [] \<Rightarrow> (Inl (SyntaxError ''unexpected EOF while reading''), [])
      | token # rest \<Rightarrow>
          if token = ''('' then lisp2_parse_loop atom [] rest
          else if token = '')'' then (Inl (SyntaxError ''unexpected )''), rest)
          else if token = [CHR 0x27] then
            (case lisp2_parse atom rest of
               (Inl e, tokens') \<Rightarrow> (Inl e, tokens')
             | (Inr v, tokens') \<Rightarrow> (Inr (VList [VStr ''quote'', v]), tokens'))
          else (Inr (atom token), rest))"
| "lisp2_parse_loop atom L tokens =
     (case tokens of
        [] \<Rightarrow> (Inl IndexError, [])
      | t # rest \<Rightarrow>
          if t \<noteq> '')'' then
            (case lisp2_parse atom tokens of
               (Inl e, tokens') \<Rightarrow> (Inl e, tokens')
             | (Inr v, tokens') \<Rightarrow>
                 if tokens' = [] then (Inl (SyntaxError ''unexpected EOF while reading list''), [])
                 else lisp2_parse_loop atom (L @ [v]) tokens')
          else (Inr (VList L), rest))"
  by pat_completeness auto

lemma lisp2_parse_shrinks:
  "lisp2_parse_lisp2_parse_loop_dom (Inl (atom, tokens)) \<Longrightarrow>
     length (snd (lisp2_parse atom tokens)) \<le> length tokens - 1"
  "lisp2_parse_lisp2_parse_loop_dom (Inr (atom, L, tokens)) \<Longrightarrow>
     length (snd (lisp2_parse_loop atom L tokens)) \<le> length tokens"
proof (induction atom tokens and atom L tokens rule: lisp2_parse_lisp2_parse_loop.pinduct)
  case (1 atom tokens)
  then show ?case
    by (cases tokens) (auto simp: lisp2_parse.psimps split: prod.splits sum.splits)
next
  case (2 atom L tokens)
  then show ?case
    by (cases tokens) (fastforce simp: lisp2_parse_loop.psimps split: prod.splits sum.splits)+
qed

termination lisp2_parse
  apply (relation "measure (\<lambda>x. case x of Inl (a, ts) \<Rightarrow> 2 * length ts
                                      | Inr (a, L, ts) \<Rightarrow> 2 * length ts + 1)")
      apply simp
     apply simp
    apply simp
   apply simp
  subgoal for atom L tokens
    using lisp2_parse_shrinks(1)[of atom tokens] by (cases "lisp2_parse atom tokens") auto
  done

declare lisp2_parse.simps [simp del] lisp2_parse_loop.simps [simp del]

subsection \<open>\<^verbatim>\<open>parse\<close> of \<^verbatim>\<open>lisp3.py\<close>\<close>

function lisp3_parse :: "(string \<Rightarrow> 'c val) \<Rightarrow> string list \<Rightarrow> (error + 'c val) \<times> string list"
  and lisp3_parse_loop :: "(string \<Rightarrow> 'c val) \<Rightarrow> 'c val list \<Rightarrow> string list \<Rightarrow> (error + 'c val) \<times> string list"
where
  "lisp3_parse atom tokens =
     (case tokens of
        [] \<Rightarrow> (Inl (SyntaxError ''unexpected EOF''), [])
      | token # rest \<Rightarrow>
          if token = ''('' then lisp3_parse_loop atom [] rest
          else if token = [CHR 0x27] then
            (case lisp3_parse atom rest of
               (Inl e, tokens') \<Rightarrow> (Inl e, tokens')
             | (Inr v, tokens') \<Rightarrow> (Inr (VList [VStr ''quote'', v]), tokens'))
          else if token = '')'' then (Inl (SyntaxError ''unexpected )''), rest)
          else (Inr (atom token), rest))"
| "lisp3_parse_loop atom lst tokens =
     (case tokens of
        [] \<Rightarrow> (Inl IndexError, [])
      | t # rest \<Rightarrow>
          if t \<noteq> '')'' then
            (case lisp3_parse atom tokens of
               (Inl e, tokens') \<Rightarrow> (Inl e, tokens')
             | (Inr v, tokens') \<Rightarrow> lisp3_parse_loop atom (lst @ [v]) tokens')
          else (Inr (VList lst), rest))"
  by pat_completeness auto

lemma lisp3_parse_shrinks:
  "lisp3_parse_lisp3_parse_loop_dom (Inl (atom, tokens)) \<Longrightarrow>
     length (snd (lisp3_parse atom tokens)) \<le> length tokens - 1"
  "lisp3_parse_lisp3_parse_loop_dom (Inr (atom, lst, tokens)) \<Longrightarrow>
     length (snd (lisp3_parse_loop atom lst tokens)) \<le> length tokens"
proof (induction atom tokens and atom lst tokens rule: lisp3_parse_lisp3_parse_loop.pinduct)
  case (1 atom tokens)
  then show ?case
    by (cases tokens) (auto simp: lisp3_parse.psimps split: prod.splits sum.splits)
next
  case (2 atom lst tokens)
  then show ?case
    by (cases tokens) (fastforce simp: lisp3_parse_loop.psimps split: prod.splits sum.splits)+
qed

termination lisp3_parse
  apply (relation "measure (\<lambda>x. case x of Inl (a, ts) \<Rightarrow> 2 * length ts
                                      | Inr (a, lst, ts) \<Rightarrow> 2 * length ts + 1)")
      apply simp
     apply simp
    apply simp
   apply simp
  subgoal for atom lst tokens
    using lisp3_parse_shrinks(1)[of atom tokens] by (cases "lisp3_parse atom tokens") auto
  done

declare lisp3_parse.simps [simp del] lisp3_parse_loop.simps [simp del]

section \<open>Host operations shared by the interpreters\<close>

subsection \<open>Equality, hashing, truth\<close>

text \<open>
  Python's \<^verbatim>\<open>==\<close> identifies \<^verbatim>\<open>True\<close> with \<^verbatim>\<open>1\<close> and \<^verbatim>\<open>False\<close> with \<^verbatim>\<open>0\<close>, a float
  with the integer of the same value, compares lists element by element and objects
  by identity. \<open>canon\<close> maps a value to the representative of its class under \<^verbatim>\<open>==\<close>.
\<close>

fun canon :: "'c val \<Rightarrow> 'c val" where
  "canon (VBool b) = VInt (if b then 1 else 0)"
| "canon (VList xs) = VList (map canon xs)"
| "canon (VInt i) = VInt i"
| "canon (VFloat q) = (if of_int \<lfloor>q\<rfloor> = q then VInt \<lfloor>q\<rfloor> else VFloat q)"
| "canon VNone = VNone"
| "canon (VStr s) = VStr s"
| "canon (VObj c) = VObj c"

definition py_eq :: "'c val \<Rightarrow> 'c val \<Rightarrow> bool" where
  "py_eq a b = (canon a = canon b)"

text \<open>Lists are the only unhashable values here; using one as a key raises \<^verbatim>\<open>TypeError\<close>.\<close>

fun hashable :: "'c val \<Rightarrow> bool" where
  "hashable (VList xs) = False"
| "hashable v = True"

text \<open>Host truthiness, as used by \<^verbatim>\<open>conseq if result else alt\<close>.\<close>

fun truthy :: "'c val \<Rightarrow> bool" where
  "truthy (VInt i) = (i \<noteq> 0)"
| "truthy (VFloat q) = (q \<noteq> 0)"
| "truthy (VBool b) = b"
| "truthy VNone = False"
| "truthy (VStr s) = (s \<noteq> [])"
| "truthy (VList xs) = (xs \<noteq> [])"
| "truthy (VObj c) = True"

fun is_list :: "'c val \<Rightarrow> bool" where
  "is_list (VList xs) = True"
| "is_list v = False"

subsection \<open>Dictionaries\<close>

text \<open>
  A \<^verbatim>\<open>dict\<close> is an association list whose keys are stored in canonical form, so that
  \<^verbatim>\<open>d[True]\<close> and \<^verbatim>\<open>d[1]\<close> are the same entry. Callers check \<open>hashable\<close> first.
\<close>

type_synonym 'c dict = "('c val \<times> 'c val) list"

definition dict_get :: "'c dict \<Rightarrow> 'c val \<Rightarrow> 'c val option" where
  "dict_get d k = map_of d (canon k)"

definition dict_set :: "'c dict \<Rightarrow> 'c val \<Rightarrow> 'c val \<Rightarrow> 'c dict" where
  "dict_set d k v = AList.update (canon k) v d"

text \<open>\<^verbatim>\<open>d[k]\<close>, raising \<^verbatim>\<open>KeyError\<close>.\<close>

definition dict_index :: "'c dict \<Rightarrow> 'c val \<Rightarrow> error + 'c val" where
  "dict_index d k = (case dict_get d k of None \<Rightarrow> Inl KeyError | Some v \<Rightarrow> Inr v)"

text \<open>
  Iterating a value, as \<^verbatim>\<open>zip(params, args)\<close> does: a list yields its elements, a
  string its characters; anything else is not iterable (\<open>None\<close>).
\<close>

fun py_iter :: "'c val \<Rightarrow> 'c val list option" where
  "py_iter (VList xs) = Some xs"
| "py_iter (VStr s) = Some (map (\<lambda>c. VStr [c]) s)"
| "py_iter v = None"

fun py_len :: "'c val \<Rightarrow> nat option" where
  "py_len (VList xs) = Some (length xs)"
| "py_len (VStr s) = Some (length s)"
| "py_len v = None"

text \<open>Storing pairs one after the other, as \<^verbatim>\<open>dict.update\<close> and the binding loops do.\<close>

fun bind_all :: "'c dict \<Rightarrow> ('c val \<times> 'c val) list \<Rightarrow> error + 'c dict" where
  "bind_all d [] = Inr d"
| "bind_all d ((k, v) # kvs) =
     (if hashable k then bind_all (dict_set d k v) kvs
      else Inl (TypeError ''unhashable type''))"

subsection \<open>Arithmetic and comparison\<close>

datatype num = NInt int | NFloat rat

fun num_of :: "'c val \<Rightarrow> num option" where
  "num_of (VInt i) = Some (NInt i)"
| "num_of (VBool b) = Some (NInt (if b then 1 else 0))"
| "num_of (VFloat q) = Some (NFloat q)"
| "num_of v = None"

fun num_val :: "num \<Rightarrow> rat" where
  "num_val (NInt i) = of_int i"
| "num_val (NFloat q) = q"

text \<open>
  \<^verbatim>\<open>sum(args)\<close>: starts from \<^verbatim>\<open>0\<close>, so every element has to be a number. With a float
  among them the sum is float arithmetic.
\<close>

fun py_sum :: "int \<Rightarrow> 'c val list \<Rightarrow> error + int" where
  "py_sum acc [] = Inr acc"
| "py_sum acc (x # xs) =
     (case num_of x of
        None \<Rightarrow> Inl (TypeError ''unsupported operand type(s) for +'')
      | Some (NInt i) \<Rightarrow> py_sum (acc + i) xs
      | Some (NFloat q) \<Rightarrow> Inl FloatArithmetic)"

definition py_neg :: "'c val \<Rightarrow> error + 'c val" where
  "py_neg a = (case num_of a of
       None \<Rightarrow> Inl (TypeError ''bad operand type for unary -'')
     | Some (NInt i) \<Rightarrow> Inr (VInt (- i))
     | Some (NFloat q) \<Rightarrow> Inr (VFloat (- q)))"

definition py_minus :: "'c val \<Rightarrow> 'c val \<Rightarrow> error + 'c val" where
  "py_minus a b = (case (num_of a, num_of b) of
       (Some (NInt i), Some (NInt j)) \<Rightarrow> Inr (VInt (i - j))
     | (Some x, Some y) \<Rightarrow> Inl FloatArithmetic
     | _ \<Rightarrow> Inl (TypeError ''unsupported operand type(s) for -''))"

definition py_repeat :: "int \<Rightarrow> 'a list \<Rightarrow> 'a list" where
  "py_repeat n xs = concat (replicate (nat n) xs)"

text \<open>
  \<^verbatim>\<open>a * b\<close>: numbers multiply; a string or a list times an integer is repeated (a
  float does not count as a number of repetitions).
\<close>

definition py_mul :: "'c val \<Rightarrow> 'c val \<Rightarrow> error + 'c val" where
  "py_mul a b =
     (case (num_of a, num_of b) of
        (Some (NInt i), Some (NInt j)) \<Rightarrow> Inr (VInt (i * j))
      | (Some x, Some y) \<Rightarrow> Inl FloatArithmetic
      | (Some (NInt i), None) \<Rightarrow>
          (case b of VStr t \<Rightarrow> Inr (VStr (py_repeat i t))
                   | VList ys \<Rightarrow> Inr (VList (py_repeat i ys))
                   | _ \<Rightarrow> Inl (TypeError ''unsupported operand type(s) for *''))
      | (None, Some (NInt j)) \<Rightarrow>
          (case a of VStr t \<Rightarrow> Inr (VStr (py_repeat j t))
                   | VList xs \<Rightarrow> Inr (VList (py_repeat j xs))
                   | _ \<Rightarrow> Inl (TypeError ''unsupported operand type(s) for *''))
      | _ \<Rightarrow> Inl (TypeError ''unsupported operand type(s) for *''))"

fun py_prod :: "'c val \<Rightarrow> 'c val list \<Rightarrow> error + 'c val" where
  "py_prod acc [] = Inr acc"
| "py_prod acc (x # xs) =
     (case py_mul acc x of Inl e \<Rightarrow> Inl e | Inr r \<Rightarrow> py_prod r xs)"

text \<open>
  True division of two numbers is float arithmetic, also for two integers. Division
  by zero and operands that are not numbers fail as in Python.
\<close>

definition py_truediv :: "'c val \<Rightarrow> 'c val \<Rightarrow> error + 'c val" where
  "py_truediv a b = (case (num_of a, num_of b) of
       (Some x, Some y) \<Rightarrow> if num_val y = 0 then Inl ZeroDivisionError else Inl FloatArithmetic
     | _ \<Rightarrow> Inl (TypeError ''unsupported operand type(s) for /''))"

datatype cmp3 = LT | EQ | GT

definition cmp_num :: "rat \<Rightarrow> rat \<Rightarrow> cmp3" where
  "cmp_num i j = (if i < j then LT else if i = j then EQ else GT)"

fun cmp_str :: "string \<Rightarrow> string \<Rightarrow> cmp3" where
  "cmp_str [] [] = EQ"
| "cmp_str [] (d # t) = LT"
| "cmp_str (c # s) [] = GT"
| "cmp_str (c # s) (d # t) =
     (if (of_char c :: nat) < of_char d then LT
      else if (of_char d :: nat) < of_char c then GT
      else cmp_str s t)"

text \<open>
  Ordering comparisons: numbers with numbers (by their exact values), strings with
  strings, lists with lists (decided at the first position where the elements differ
  under \<^verbatim>\<open>==\<close>, else by length); every other pairing raises \<^verbatim>\<open>TypeError\<close>.
\<close>

fun py_cmp :: "'c val \<Rightarrow> 'c val \<Rightarrow> error + cmp3" where
  "py_cmp (VList (x # xs)) (VList (y # ys)) =
     (if py_eq x y then py_cmp (VList xs) (VList ys) else py_cmp x y)"
| "py_cmp (VList []) (VList []) = Inr EQ"
| "py_cmp (VList []) (VList (y # ys)) = Inr LT"
| "py_cmp (VList (x # xs)) (VList []) = Inr GT"
| "py_cmp (VStr s) (VStr t) = Inr (cmp_str s t)"
| "py_cmp a b = (case (num_of a, num_of b) of
       (Some x, Some y) \<Rightarrow> Inr (cmp_num (num_val x) (num_val y))
     | _ \<Rightarrow> Inl (TypeError ''comparison not supported''))"

definition py_compare :: "(cmp3 \<Rightarrow> bool) \<Rightarrow> 'c val \<Rightarrow> 'c val \<Rightarrow> error + 'c val" where
  "py_compare accept a b = (case py_cmp a b of Inl e \<Rightarrow> Inl e | Inr r \<Rightarrow> Inr (VBool (accept r)))"

subsection \<open>Results of evaluation\<close>

text \<open>
  The evaluators recurse without bound, so they take fuel: \<open>Timeout\<close> means that the
  fuel ran out (Python's own recursion limit is not modelled). An exception leaves the
  store as it was when it was raised: nothing is rolled back.
\<close>

datatype ('a, 's) result = Timeout | Raise error 's | Return 'a 's

definition lift_result :: "error + 'a \<Rightarrow> 's \<Rightarrow> ('a, 's) result" where
  "lift_result r s = (case r of Inl e \<Rightarrow> Raise e s | Inr v \<Rightarrow> Return v s)"

section \<open>The interpreter of \<^verbatim>\<open>lisp.py\<close>\<close>

subsection \<open>Environments\<close>

text \<open>
  \<^verbatim>\<open>class Env(dict)\<close>: a dictionary with a reference \<^verbatim>\<open>outer\<close> to the enclosing
  environment. Environments are shared and mutated in place, so they live in the store
  and are named by their address (the index in \<open>envs\<close>). A new \<^verbatim>\<open>Env\<close> goes to the end
  of the list; \<^verbatim>\<open>outer\<close> is set once, to an environment that already exists, so it is
  always a smaller address.
\<close>

record 'c env =
  binds :: "'c dict"
  outer :: "nat option"

record store =
  envs :: "obj1 env list"
  next_id :: nat

text \<open>
  \<^verbatim>\<open>Env.find\<close>: the nearest environment of the chain that holds \<open>var\<close>. The two guards
  (the address is in the store, the outer address is smaller) hold for every store the
  interpreter builds; they make the walk along \<^verbatim>\<open>outer\<close> terminate.
\<close>

function env_find :: "'c env list \<Rightarrow> nat \<Rightarrow> 'c val \<Rightarrow> nat option" where
  "env_find es a var =
     (if a < length es then
        (if dict_get (binds (es ! a)) var \<noteq> None then Some a
         else (case outer (es ! a) of
                 None \<Rightarrow> None
               | Some p \<Rightarrow> if p < a then env_find es p var else None))
      else None)"
  by pat_completeness auto
termination env_find
  by (relation "measure (\<lambda>(es, a, var). a)") auto

declare env_find.simps [simp del]

definition env_set :: "store \<Rightarrow> nat \<Rightarrow> obj1 val \<Rightarrow> obj1 val \<Rightarrow> store" where
  "env_set s a k v =
     s\<lparr>envs := (envs s)[a := (envs s ! a)\<lparr>binds := dict_set (binds (envs s ! a)) k v\<rparr>]\<rparr>"

text \<open>\<^verbatim>\<open>Env(params, args, outer)\<close> allocates the new environment and returns its address.\<close>

definition new_env :: "store \<Rightarrow> obj1 dict \<Rightarrow> nat option \<Rightarrow> nat \<times> store" where
  "new_env s d out = (length (envs s), s\<lparr>envs := envs s @ [\<lparr>binds = d, outer = out\<rparr>]\<rparr>)"

subsection \<open>\<^verbatim>\<open>PRIMITIVES\<close>\<close>

text \<open>
  Each entry is a host lambda; calling it with the wrong number of arguments is a
  \<^verbatim>\<open>TypeError\<close> of the host. \<^verbatim>\<open>a[0]\<close> and \<^verbatim>\<open>a[1:]\<close> work on lists and on strings.
\<close>

definition lisp_cons :: "'c val \<Rightarrow> 'c val \<Rightarrow> 'c val" where
  "lisp_cons a b = (case b of VList ys \<Rightarrow> VList (a # ys) | _ \<Rightarrow> VList [a, b])"

definition lisp_car :: "'c val \<Rightarrow> error + 'c val" where
  "lisp_car a =
     (case a of
        VList xs \<Rightarrow> (case xs of [] \<Rightarrow> Inl IndexError | x # _ \<Rightarrow> Inr x)
      | VStr s \<Rightarrow> (case s of [] \<Rightarrow> Inl IndexError | c # _ \<Rightarrow> Inr (VStr [c]))
      | _ \<Rightarrow> Inl (TypeError ''object is not subscriptable''))"

definition lisp_cdr :: "'c val \<Rightarrow> error + 'c val" where
  "lisp_cdr a =
     (case a of
        VList xs \<Rightarrow> Inr (VList (drop 1 xs))
      | VStr s \<Rightarrow> Inr (VStr (drop 1 s))
      | _ \<Rightarrow> Inl (TypeError ''object is not subscriptable''))"

definition arity_error :: error where
  "arity_error = TypeError ''wrong number of positional arguments''"

fun apply_builtin :: "builtin \<Rightarrow> 'c val list \<Rightarrow> error + 'c val" where
  "apply_builtin B_add args = map_sum id VInt (py_sum 0 args)"
| "apply_builtin B_sub [] = Inl arity_error"
| "apply_builtin B_sub [a] = py_neg a"
| "apply_builtin B_sub (a # rest) =
     (case py_sum 0 rest of Inl e \<Rightarrow> Inl e | Inr t \<Rightarrow> py_minus a (VInt t))"
| "apply_builtin B_mul args = py_prod (VInt 1) args"
| "apply_builtin B_div [a, b] = py_truediv a b"
| "apply_builtin B_gt [a, b] = py_compare (\<lambda>r. r = GT) a b"
| "apply_builtin B_lt [a, b] = py_compare (\<lambda>r. r = LT) a b"
| "apply_builtin B_ge [a, b] = py_compare (\<lambda>r. r \<noteq> LT) a b"
| "apply_builtin B_le [a, b] = py_compare (\<lambda>r. r \<noteq> GT) a b"
| "apply_builtin B_num_eq [a, b] = Inr (VBool (py_eq a b))"
| "apply_builtin B_eq [a, b] = Inr (VBool (py_eq a b))"
| "apply_builtin B_cons [a, b] = Inr (lisp_cons a b)"
| "apply_builtin B_car [a] = lisp_car a"
| "apply_builtin B_cdr [a] = lisp_cdr a"
| "apply_builtin B_list args = Inr (VList args)"
| "apply_builtin B_is_list [a] = Inr (VBool (is_list a))"
| "apply_builtin B_is_null [a] = Inr (VBool (py_eq a (VList [])))"
| "apply_builtin B_print args = Inr VNone"
| "apply_builtin b args = Inl arity_error"

definition PRIMITIVES :: "obj1 dict" where
  "PRIMITIVES =
     [(VStr ''+'', VObj (Builtin B_add)), (VStr ''-'', VObj (Builtin B_sub)),
      (VStr ''*'', VObj (Builtin B_mul)), (VStr ''/'', VObj (Builtin B_div)),
      (VStr ''>'', VObj (Builtin B_gt)), (VStr ''<'', VObj (Builtin B_lt)),
      (VStr ''>='', VObj (Builtin B_ge)), (VStr ''<='', VObj (Builtin B_le)),
      (VStr ''='', VObj (Builtin B_num_eq)), (VStr ''eq?'', VObj (Builtin B_eq)),
      (VStr ''cons'', VObj (Builtin B_cons)), (VStr ''car'', VObj (Builtin B_car)),
      (VStr ''cdr'', VObj (Builtin B_cdr)), (VStr ''list'', VObj (Builtin B_list)),
      (VStr ''list?'', VObj (Builtin B_is_list)), (VStr ''null?'', VObj (Builtin B_is_null)),
      (VStr ''print'', VObj (Builtin B_print))]"

definition global_env :: "obj1 env" where
  "global_env =
     \<lparr>binds = PRIMITIVES @
        [(VStr ''true'', VBool True), (VStr ''false'', VBool False), (VStr ''nil'', VList [])],
      outer = None\<rparr>"

text \<open>The store after the module is loaded: \<^verbatim>\<open>global_env\<close> is at address 0.\<close>

definition lisp_init :: store where
  "lisp_init = \<lparr>envs = [global_env], next_id = 0\<rparr>"

subsection \<open>\<^verbatim>\<open>eval_lisp\<close> and \<^verbatim>\<open>Procedure.__call__\<close>\<close>

text \<open>
  In the definitions below \<open>ev\<close> is the recursive call of \<^verbatim>\<open>eval_lisp\<close> (with one unit
  of fuel less).
\<close>

type_synonym evaluator1 = "obj1 val \<Rightarrow> nat \<Rightarrow> store \<Rightarrow> (obj1 val, store) result"

text \<open>\<^verbatim>\<open>[eval_lisp(exp, env) for exp in x[1:]]\<close>, left to right.\<close>

fun eval_args :: "evaluator1 \<Rightarrow> obj1 val list \<Rightarrow> nat \<Rightarrow> store \<Rightarrow> (obj1 val list, store) result" where
  "eval_args ev [] env s = Return [] s"
| "eval_args ev (ex # exps) env s =
     (case ev ex env s of
        Timeout \<Rightarrow> Timeout
      | Raise e s1 \<Rightarrow> Raise e s1
      | Return v s1 \<Rightarrow>
          (case eval_args ev exps env s1 of
             Timeout \<Rightarrow> Timeout
           | Raise e s2 \<Rightarrow> Raise e s2
           | Return vs s2 \<Rightarrow> Return (v # vs) s2))"

text \<open>The loop of \<^verbatim>\<open>begin\<close>; \<open>result\<close> starts as \<^verbatim>\<open>None\<close>.\<close>

fun eval_begin :: "evaluator1 \<Rightarrow> obj1 val \<Rightarrow> obj1 val list \<Rightarrow> nat \<Rightarrow> store \<Rightarrow> (obj1 val, store) result" where
  "eval_begin ev result [] env s = Return result s"
| "eval_begin ev result (expr # exprs) env s =
     (case ev expr env s of
        Return r s1 \<Rightarrow> eval_begin ev r exprs env s1
      | other \<Rightarrow> other)"

text \<open>
  \<^verbatim>\<open>Procedure.__call__\<close>: \<^verbatim>\<open>Env(self.params, args, outer=self.env)\<close> pairs parameters and
  arguments with \<^verbatim>\<open>zip\<close>, which stops at the shorter of the two, then the body is
  evaluated in the new environment. There is no comparison of the two lengths.
\<close>

definition call_procedure ::
  "evaluator1 \<Rightarrow> obj1 val \<Rightarrow> obj1 val \<Rightarrow> nat \<Rightarrow> obj1 val list \<Rightarrow> store \<Rightarrow> (obj1 val, store) result" where
  "call_procedure ev params body penv args s =
     (case py_iter params of
        None \<Rightarrow> Raise (TypeError ''object is not iterable'') s
      | Some ps \<Rightarrow>
          (case bind_all [] (zip ps args) of
             Inl e \<Rightarrow> Raise e s
           | Inr d \<Rightarrow> (case new_env s d (Some penv) of (local, s1) \<Rightarrow> ev body local s1)))"

definition call_value ::
  "evaluator1 \<Rightarrow> obj1 val \<Rightarrow> obj1 val list \<Rightarrow> store \<Rightarrow> (obj1 val, store) result" where
  "call_value ev proc args s =
     (case proc of
        VObj (Builtin b) \<Rightarrow> lift_result (apply_builtin b args) s
      | VObj (Procedure i params body penv) \<Rightarrow> call_procedure ev params body penv args s
      | _ \<Rightarrow> Raise (TypeError ''Not a function'') s)"

text \<open>The branches of \<^verbatim>\<open>eval_lisp\<close> for a non-empty list \<^verbatim>\<open>x\<close> with \<^verbatim>\<open>head = x[0]\<close>.\<close>

definition eval_form ::
  "evaluator1 \<Rightarrow> obj1 val \<Rightarrow> obj1 val list \<Rightarrow> nat \<Rightarrow> store \<Rightarrow> (obj1 val, store) result" where
  "eval_form ev head rest env s =
     (if head = VStr ''quote'' then
        (case rest of [expr] \<Rightarrow> Return expr s | _ \<Rightarrow> Raise ValueError s)
      else if head = VStr ''if'' then
        (case rest of
           [test, conseq, alt] \<Rightarrow>
             (case ev test env s of
                Return result s1 \<Rightarrow> ev (if truthy result then conseq else alt) env s1
              | other \<Rightarrow> other)
         | _ \<Rightarrow> Raise ValueError s)
      else if head = VStr ''define'' \<or> head = VStr ''set!'' then
        (case rest of
           [name, expr] \<Rightarrow>
             (case ev expr env s of
                Return v s1 \<Rightarrow>
                  if hashable name then
                    (case env_find (envs s1) env name of
                       Some holder \<Rightarrow> Return name (env_set s1 holder name v)
                     | None \<Rightarrow> Return name (env_set s1 env name v))
                  else Raise (TypeError ''unhashable type'') s1
              | other \<Rightarrow> other)
         | _ \<Rightarrow> Raise ValueError s)
      else if head = VStr ''lambda'' then
        (case rest of
           [params, body] \<Rightarrow>
             Return (VObj (Procedure (next_id s) params body env)) (s\<lparr>next_id := Suc (next_id s)\<rparr>)
         | _ \<Rightarrow> Raise ValueError s)
      else if head = VStr ''begin'' then eval_begin ev VNone rest env s
      else
        (case ev head env s of
           Return proc s1 \<Rightarrow>
             (case eval_args ev rest env s1 of
                Timeout \<Rightarrow> Timeout
              | Raise e s2 \<Rightarrow> Raise e s2
              | Return args s2 \<Rightarrow> call_value ev proc args s2)
         | other \<Rightarrow> other))"

text \<open>
  \<^verbatim>\<open>eval_lisp(x, env)\<close>. A symbol is looked up with \<^verbatim>\<open>find\<close>; numbers, booleans and the
  empty list evaluate to themselves; anything that is not a list fails the
  \<^verbatim>\<open>assert\<close>.
\<close>

definition eval_lisp_body :: "evaluator1 \<Rightarrow> evaluator1" where
  "eval_lisp_body ev x env s =
     (case x of
        VStr name \<Rightarrow>
          (case env_find (envs s) env x of
             Some found \<Rightarrow> lift_result (dict_index (binds (envs s ! found)) x) s
           | None \<Rightarrow> Raise (NameError ''Undefined symbol'') s)
      | VInt i \<Rightarrow> Return x s
      | VFloat q \<Rightarrow> Return x s
      | VBool b \<Rightarrow> Return x s
      | VList [] \<Rightarrow> Return x s
      | VList (head # rest) \<Rightarrow> eval_form ev head rest env s
      | _ \<Rightarrow> Raise AssertionError s)"

primrec eval_lisp :: "nat \<Rightarrow> evaluator1" where
  "eval_lisp 0 = (\<lambda>x env s. Timeout)"
| "eval_lisp (Suc fuel) = eval_lisp_body (eval_lisp fuel)"

text \<open>\<^verbatim>\<open>run\<close> on a program that is already parsed: each expression in turn, in \<^verbatim>\<open>global_env\<close>.\<close>

fun run_exprs :: "nat \<Rightarrow> obj1 val \<Rightarrow> obj1 val list \<Rightarrow> store \<Rightarrow> (obj1 val, store) result" where
  "run_exprs fuel lastv [] s = Return lastv s"
| "run_exprs fuel lastv (ex # exprs) s =
     (case eval_lisp fuel ex 0 s of
        Return v s1 \<Rightarrow> run_exprs fuel v exprs s1
      | other \<Rightarrow> other)"

section \<open>The interpreters of \<^verbatim>\<open>lisp2.py\<close> and \<^verbatim>\<open>lisp3.py\<close>\<close>

subsection \<open>The heap of dictionaries\<close>

text \<open>
  Here an environment is a plain \<^verbatim>\<open>dict\<close> without a parent. The dictionaries are
  still shared (the primitives read the dictionary they were created with, a host
  function of \<^verbatim>\<open>lisp3.py\<close> closes over its defining dictionary) and copied
  (\<^verbatim>\<open>env.copy()\<close>), so they live in a heap. When binding the parameters of a call
  fails, the copy made for that call is unreachable; the model does not allocate it.
\<close>

record 'c heap =
  dicts :: "'c dict list"
  fresh :: nat

definition dict_at :: "'c heap \<Rightarrow> nat \<Rightarrow> 'c dict" where
  "dict_at h a = (if a < length (dicts h) then dicts h ! a else [])"

definition alloc :: "'c heap \<Rightarrow> 'c dict \<Rightarrow> nat \<times> 'c heap" where
  "alloc h d = (length (dicts h), h\<lparr>dicts := dicts h @ [d]\<rparr>)"

definition heap_set :: "'c heap \<Rightarrow> nat \<Rightarrow> 'c val \<Rightarrow> 'c val \<Rightarrow> 'c heap" where
  "heap_set h a k v = h\<lparr>dicts := (dicts h)[a := dict_set (dict_at h a) k v]\<rparr>"

text \<open>\<^verbatim>\<open>env[name] = v\<close> for a name taken from the program.\<close>

definition store_name :: "'c heap \<Rightarrow> nat \<Rightarrow> 'c val \<Rightarrow> 'c val \<Rightarrow> ('c val, 'c heap) result" where
  "store_name h env name v =
     (if hashable name then Return name (heap_set h env name v)
      else Raise (TypeError ''unhashable type'') h)"

subsection \<open>Primitives\<close>

text \<open>
  \<^verbatim>\<open>prim_atom\<close> and \<^verbatim>\<open>prim_eq\<close> answer with \<^verbatim>\<open>env['T']\<close> or \<^verbatim>\<open>env['NIL']\<close>, read from
  the dictionary \<open>env\<close> that \<^verbatim>\<open>make_global_env\<close> was building when it defined them.
  \<^verbatim>\<open>prim_cons\<close> refuses a second argument that is not a list; \<^verbatim>\<open>prim_car\<close> and
  \<^verbatim>\<open>prim_cdr\<close> answer the empty list for anything but a non-empty list.
\<close>

definition is_atom :: "'c val \<Rightarrow> bool" where
  "is_atom a = (case a of VList (x # xs) \<Rightarrow> False | _ \<Rightarrow> True)"

definition truth_of :: "'c dict \<Rightarrow> bool \<Rightarrow> error + 'c val" where
  "truth_of env b = dict_index env (VStr (if b then ''T'' else ''NIL''))"

definition prim_cons :: "'c val \<Rightarrow> 'c val \<Rightarrow> error + 'c val" where
  "prim_cons a b =
     (case b of
        VList ys \<Rightarrow> Inr (VList (a # ys))
      | _ \<Rightarrow> Inl (TypeError ''cons second argument must be a list''))"

definition prim_car :: "'c val \<Rightarrow> 'c val" where
  "prim_car a = (case a of VList (x # xs) \<Rightarrow> x | _ \<Rightarrow> VList [])"

definition prim_cdr :: "'c val \<Rightarrow> 'c val" where
  "prim_cdr a = (case a of VList (x # xs) \<Rightarrow> VList xs | _ \<Rightarrow> VList [])"

definition prim_atom :: "'c dict \<Rightarrow> 'c val \<Rightarrow> error + 'c val" where
  "prim_atom env a = truth_of env (is_atom a)"

definition prim_eq :: "'c dict \<Rightarrow> 'c val \<Rightarrow> 'c val \<Rightarrow> error + 'c val" where
  "prim_eq env a b = truth_of env (py_eq a b)"

text \<open>\<^verbatim>\<open>res = x; for v in rest: res = res - v\<close>, and the same loop with a division.\<close>

fun fold_op :: "('c val \<Rightarrow> 'c val \<Rightarrow> error + 'c val) \<Rightarrow> 'c val \<Rightarrow> 'c val list \<Rightarrow> error + 'c val" where
  "fold_op f res [] = Inr res"
| "fold_op f res (x # xs) = (case f res x of Inl e \<Rightarrow> Inl e | Inr r \<Rightarrow> fold_op f r xs)"

text \<open>
  \<^verbatim>\<open>res // x if isinstance(res, int) and isinstance(x, int) else res / x\<close>: floor
  division of two integers, true division as soon as one operand is not an integer.
\<close>

definition py_floordiv :: "'c val \<Rightarrow> 'c val \<Rightarrow> error + 'c val" where
  "py_floordiv a b = (case (num_of a, num_of b) of
       (Some (NInt i), Some (NInt j)) \<Rightarrow>
          if j = 0 then Inl ZeroDivisionError else Inr (VInt (i div j))
     | _ \<Rightarrow> py_truediv a b)"

text \<open>The primitives of \<^verbatim>\<open>lisp2.py\<close> take one argument, the list \<^verbatim>\<open>args\<close>.\<close>

fun apply_prim2 :: "primop \<Rightarrow> 'c dict \<Rightarrow> 'c val list \<Rightarrow> error + 'c val" where
  "apply_prim2 Prim_atom env [a] = prim_atom env a"
| "apply_prim2 Prim_atom env args = Inl (TypeError ''atom expects 1 arg'')"
| "apply_prim2 Prim_eq env [a, b] = prim_eq env a b"
| "apply_prim2 Prim_eq env args = Inl (TypeError ''eq expects 2 args'')"
| "apply_prim2 Prim_cons env [a, b] = prim_cons a b"
| "apply_prim2 Prim_cons env args = Inl (TypeError ''cons expects 2 args'')"
| "apply_prim2 Prim_car env [a] = Inr (prim_car a)"
| "apply_prim2 Prim_car env args = Inl (TypeError ''car expects 1 arg'')"
| "apply_prim2 Prim_cdr env [a] = Inr (prim_cdr a)"
| "apply_prim2 Prim_cdr env args = Inl (TypeError ''cdr expects 1 arg'')"
| "apply_prim2 Prim_add env args = map_sum id VInt (py_sum 0 args)"
| "apply_prim2 Prim_sub env [] = Inl (TypeError ''- expects at least 1 arg'')"
| "apply_prim2 Prim_sub env [a] = py_neg a"
| "apply_prim2 Prim_sub env (a # rest) = fold_op py_minus a rest"
| "apply_prim2 Prim_mul env args = py_prod (VInt 1) args"
| "apply_prim2 Prim_div env [] = Inl (TypeError ''/ expects at least 2 args'')"
| "apply_prim2 Prim_div env [a] = Inl (TypeError ''/ expects at least 2 args'')"
| "apply_prim2 Prim_div env (a # rest) = fold_op py_floordiv a rest"

text \<open>
  The primitives of \<^verbatim>\<open>lisp3.py\<close> take their arguments one by one, so the host checks
  their number. \<^verbatim>\<open>prim_div\<close> divides with \<^verbatim>\<open>/\<close> only.
\<close>

fun apply_prim3 :: "primop \<Rightarrow> 'c dict \<Rightarrow> 'c val list \<Rightarrow> error + 'c val" where
  "apply_prim3 Prim_atom env [a] = prim_atom env a"
| "apply_prim3 Prim_eq env [a, b] = prim_eq env a b"
| "apply_prim3 Prim_cons env [a, b] = prim_cons a b"
| "apply_prim3 Prim_car env [a] = Inr (prim_car a)"
| "apply_prim3 Prim_cdr env [a] = Inr (prim_cdr a)"
| "apply_prim3 Prim_add env args = map_sum id VInt (py_sum 0 args)"
| "apply_prim3 Prim_sub env [x] = py_neg x"
| "apply_prim3 Prim_sub env (x # rest) = fold_op py_minus x rest"
| "apply_prim3 Prim_mul env args = py_prod (VInt 1) args"
| "apply_prim3 Prim_div env (x # rest) = fold_op py_truediv x rest"
| "apply_prim3 p env args = Inl arity_error"

subsection \<open>\<^verbatim>\<open>make_global_env\<close>\<close>

text \<open>
  \<open>mk\<close> wraps a primitive as the object of the interpreter at hand; \<open>a\<close> is the address
  the new dictionary gets, which its primitives remember.
\<close>

definition make_global_env :: "(primop \<Rightarrow> nat \<Rightarrow> 'c) \<Rightarrow> nat \<Rightarrow> 'c dict" where
  "make_global_env mk a =
     [(VStr ''atom'', VObj (mk Prim_atom a)), (VStr ''eq'', VObj (mk Prim_eq a)),
      (VStr ''cons'', VObj (mk Prim_cons a)), (VStr ''car'', VObj (mk Prim_car a)),
      (VStr ''cdr'', VObj (mk Prim_cdr a)), (VStr ''+'', VObj (mk Prim_add a)),
      (VStr ''-'', VObj (mk Prim_sub a)), (VStr ''*'', VObj (mk Prim_mul a)),
      (VStr ''/'', VObj (mk Prim_div a)), (VStr ''T'', VBool True), (VStr ''NIL'', VList [])]"

text \<open>
  \<^verbatim>\<open>lisp2.py\<close> after loading: the module's \<^verbatim>\<open>global_env\<close> at address 0 and the
  \<^verbatim>\<open>demo_env\<close> at address 1. \<^verbatim>\<open>lisp3.py\<close>: the one \<^verbatim>\<open>env\<close> at address 0.
\<close>

definition lisp2_init :: "obj2 heap" where
  "lisp2_init = \<lparr>dicts = [make_global_env Prim2 0, make_global_env Prim2 1], fresh = 0\<rparr>"

definition lisp3_init :: "obj3 heap" where
  "lisp3_init = \<lparr>dicts = [make_global_env Prim3 0], fresh = 0\<rparr>"

subsection \<open>\<^verbatim>\<open>eval_lisp\<close> of \<^verbatim>\<open>lisp2.py\<close>\<close>

type_synonym evaluator2 = "obj2 val \<Rightarrow> nat \<Rightarrow> obj2 heap \<Rightarrow> (obj2 val, obj2 heap) result"

fun eval_args2 :: "evaluator2 \<Rightarrow> obj2 val list \<Rightarrow> nat \<Rightarrow> obj2 heap \<Rightarrow> (obj2 val list, obj2 heap) result" where
  "eval_args2 ev [] env h = Return [] h"
| "eval_args2 ev (arg # args) env h =
     (case ev arg env h of
        Timeout \<Rightarrow> Timeout
      | Raise e h1 \<Rightarrow> Raise e h1
      | Return v h1 \<Rightarrow>
          (case eval_args2 ev args env h1 of
             Timeout \<Rightarrow> Timeout
           | Raise e h2 \<Rightarrow> Raise e h2
           | Return vs h2 \<Rightarrow> Return (v # vs) h2))"

text \<open>
  The special forms \<^verbatim>\<open>atom\<close>, \<^verbatim>\<open>eq\<close>, \<^verbatim>\<open>cons\<close>, \<^verbatim>\<open>car\<close>, \<^verbatim>\<open>cdr\<close> evaluate their
  operands and call \<^verbatim>\<open>global_env[name](args)\<close>, whatever the module's \<^verbatim>\<open>global_env\<close>
  (address 0) holds under that name at that moment.
\<close>

definition call_global :: "string \<Rightarrow> obj2 val list \<Rightarrow> obj2 heap \<Rightarrow> (obj2 val, obj2 heap) result" where
  "call_global name args h =
     (case dict_index (dict_at h 0) (VStr name) of
        Inl e \<Rightarrow> Raise e h
      | Inr (VObj (Prim2 p a)) \<Rightarrow> lift_result (apply_prim2 p (dict_at h a) args) h
      | Inr other \<Rightarrow> Raise (TypeError ''object is not callable'') h)"

definition special2 :: "evaluator2 \<Rightarrow> string \<Rightarrow> nat \<Rightarrow> obj2 val list \<Rightarrow> nat \<Rightarrow> obj2 heap \<Rightarrow> (obj2 val, obj2 heap) result" where
  "special2 ev name arity rest env h =
     (if length rest \<noteq> arity then Raise ValueError h
      else (case eval_args2 ev rest env h of
              Timeout \<Rightarrow> Timeout
            | Raise e h1 \<Rightarrow> Raise e h1
            | Return vs h1 \<Rightarrow> call_global name vs h1))"

text \<open>The loop of \<^verbatim>\<open>cond\<close>: a test counts as true when its value \<^verbatim>\<open>!= []\<close>.\<close>

fun eval_cond2 :: "evaluator2 \<Rightarrow> obj2 val list \<Rightarrow> nat \<Rightarrow> obj2 heap \<Rightarrow> (obj2 val, obj2 heap) result" where
  "eval_cond2 ev [] env h = Return (VList []) h"
| "eval_cond2 ev (clause # clauses) env h =
     (case clause of
        VList [test, expr] \<Rightarrow>
          (case ev test env h of
             Return tval h1 \<Rightarrow>
               if py_eq tval (VList []) then eval_cond2 ev clauses env h1
               else ev expr env h1
           | other \<Rightarrow> other)
      | _ \<Rightarrow> Raise (SyntaxError ''cond clauses must be (test expr) pairs'') h)"

text \<open>\<^verbatim>\<open>Closure(params, body, env.copy())\<close>: the closure owns a copy of the dictionary.\<close>

definition make_closure :: "obj2 val \<Rightarrow> obj2 val \<Rightarrow> nat \<Rightarrow> obj2 heap \<Rightarrow> obj2 val \<times> obj2 heap" where
  "make_closure params body env h =
     (case alloc h (dict_at h env) of
        (a, h1) \<Rightarrow> (VObj (Closure (fresh h) params body a), h1\<lparr>fresh := Suc (fresh h)\<rparr>))"

text \<open>
  Applying a \<^verbatim>\<open>Closure\<close>: the two lengths are compared first; then the closure's
  dictionary is copied, the parameters are bound in the copy and the body is evaluated
  there.
\<close>

definition call_closure ::
  "evaluator2 \<Rightarrow> obj2 val \<Rightarrow> obj2 val \<Rightarrow> nat \<Rightarrow> obj2 val list \<Rightarrow> obj2 heap \<Rightarrow> (obj2 val, obj2 heap) result" where
  "call_closure ev params body cenv args h =
     (case py_len params of
        None \<Rightarrow> Raise (TypeError ''object has no len()'') h
      | Some n \<Rightarrow>
          if n \<noteq> length args then Raise (TypeError ''argument count mismatch'') h
          else
            (case py_iter params of
               None \<Rightarrow> Raise (TypeError ''object is not iterable'') h
             | Some ps \<Rightarrow>
                 (case bind_all (dict_at h cenv) (zip ps args) of
                    Inl e \<Rightarrow> Raise e h
                  | Inr d \<Rightarrow> (case alloc h d of (a, h1) \<Rightarrow> ev body a h1))))"

definition eval_form2 ::
  "evaluator2 \<Rightarrow> obj2 val \<Rightarrow> obj2 val list \<Rightarrow> nat \<Rightarrow> obj2 heap \<Rightarrow> (obj2 val, obj2 heap) result" where
  "eval_form2 ev head rest env h =
     (if head = VStr ''quote'' then
        (case rest of [ex] \<Rightarrow> Return ex h | _ \<Rightarrow> Raise ValueError h)
      else if head = VStr ''atom'' then special2 ev ''atom'' 1 rest env h
      else if head = VStr ''eq'' then special2 ev ''eq'' 2 rest env h
      else if head = VStr ''cons'' then special2 ev ''cons'' 2 rest env h
      else if head = VStr ''car'' then special2 ev ''car'' 1 rest env h
      else if head = VStr ''cdr'' then special2 ev ''cdr'' 1 rest env h
      else if head = VStr ''cond'' then eval_cond2 ev rest env h
      else if head = VStr ''lambda'' then
        (case rest of
           [params, body] \<Rightarrow> (case make_closure params body env h of (c, h1) \<Rightarrow> Return c h1)
         | _ \<Rightarrow> Raise ValueError h)
      else if head = VStr ''defun'' then
        (case rest of
           [name, params, body] \<Rightarrow>
             (case make_closure params body env h of (c, h1) \<Rightarrow> store_name h1 env name c)
         | _ \<Rightarrow> Raise ValueError h)
      else if head = VStr ''setq'' then
        (case rest of
           [name, expr] \<Rightarrow>
             (case ev expr env h of
                Return v h1 \<Rightarrow> store_name h1 env name v
              | other \<Rightarrow> other)
         | _ \<Rightarrow> Raise ValueError h)
      else
        (case ev head env h of
           Return op h1 \<Rightarrow>
             (case eval_args2 ev rest env h1 of
                Timeout \<Rightarrow> Timeout
              | Raise e h2 \<Rightarrow> Raise e h2
              | Return args h2 \<Rightarrow>
                  (case op of
                     VObj (Prim2 p a) \<Rightarrow> lift_result (apply_prim2 p (dict_at h2 a) args) h2
                   | VObj (Closure i params body cenv) \<Rightarrow> call_closure ev params body cenv args h2
                   | _ \<Rightarrow> Raise (NameError ''unknown operator'') h2))
         | other \<Rightarrow> other))"

text \<open>
  \<^verbatim>\<open>eval_lisp(x, env)\<close> of \<^verbatim>\<open>lisp2.py\<close> (its tracing \<^verbatim>\<open>print\<close> calls write to the output
  only). A symbol that the dictionary does not hold evaluates to itself.
\<close>

definition eval_lisp2_body :: "evaluator2 \<Rightarrow> evaluator2" where
  "eval_lisp2_body ev x env h =
     (case x of
        VStr name \<Rightarrow>
          if name = ''NIL'' then Return (VList []) h
          else Return (case dict_get (dict_at h env) x of Some v \<Rightarrow> v | None \<Rightarrow> x) h
      | VList [] \<Rightarrow> Return (VList []) h
      | VList (head # rest) \<Rightarrow> eval_form2 ev head rest env h
      | _ \<Rightarrow> Return x h)"

primrec eval_lisp2 :: "nat \<Rightarrow> evaluator2" where
  "eval_lisp2 0 = (\<lambda>x env h. Timeout)"
| "eval_lisp2 (Suc fuel) = eval_lisp2_body (eval_lisp2 fuel)"

text \<open>Evaluating parsed expressions one after the other in the dictionary at \<open>env\<close>.\<close>

fun run_exprs2 :: "nat \<Rightarrow> obj2 val \<Rightarrow> obj2 val list \<Rightarrow> nat \<Rightarrow> obj2 heap \<Rightarrow> (obj2 val, obj2 heap) result" where
  "run_exprs2 fuel lastv [] env h = Return lastv h"
| "run_exprs2 fuel lastv (ex # exprs) env h =
     (case eval_lisp2 fuel ex env h of
        Return v h1 \<Rightarrow> run_exprs2 fuel v exprs env h1
      | other \<Rightarrow> other)"

subsection \<open>\<^verbatim>\<open>eval_lisp\<close> of \<^verbatim>\<open>lisp3.py\<close>\<close>

type_synonym evaluator3 = "obj3 val \<Rightarrow> nat \<Rightarrow> obj3 heap \<Rightarrow> (obj3 val, obj3 heap) result"

text \<open>\<^verbatim>\<open>x[i]\<close> on a list or a string; \<^verbatim>\<open>IndexError\<close> out of range.\<close>

definition py_index :: "'c val \<Rightarrow> nat \<Rightarrow> error + 'c val" where
  "py_index x i =
     (case x of
        VList xs \<Rightarrow> if i < length xs then Inr (xs ! i) else Inl IndexError
      | VStr s \<Rightarrow> if i < length s then Inr (VStr [s ! i]) else Inl IndexError
      | _ \<Rightarrow> Inl (TypeError ''object is not subscriptable''))"

fun eval_args3 :: "evaluator3 \<Rightarrow> obj3 val list \<Rightarrow> nat \<Rightarrow> obj3 heap \<Rightarrow> (obj3 val list, obj3 heap) result" where
  "eval_args3 ev [] env h = Return [] h"
| "eval_args3 ev (arg # args) env h =
     (case ev arg env h of
        Timeout \<Rightarrow> Timeout
      | Raise e h1 \<Rightarrow> Raise e h1
      | Return v h1 \<Rightarrow>
          (case eval_args3 ev args env h1 of
             Timeout \<Rightarrow> Timeout
           | Raise e h2 \<Rightarrow> Raise e h2
           | Return vs h2 \<Rightarrow> Return (v # vs) h2))"

text \<open>
  Calling a host function. The function \<^verbatim>\<open>fn\<close> made by \<^verbatim>\<open>lambda\<close> and \<^verbatim>\<open>defun\<close>
  copies the dictionary it closes over at the time of the call
  (\<^verbatim>\<open>local_env = env.copy()\<close>), binds with \<^verbatim>\<open>zip(params, args)\<close> and evaluates the body
  in the copy. It does not compare the number of arguments with the parameters.
\<close>

definition call3 :: "evaluator3 \<Rightarrow> obj3 val \<Rightarrow> obj3 val list \<Rightarrow> obj3 heap \<Rightarrow> (obj3 val, obj3 heap) result" where
  "call3 ev func args h =
     (case func of
        VObj (Prim3 p a) \<Rightarrow> lift_result (apply_prim3 p (dict_at h a) args) h
      | VObj (Fn i params body fenv) \<Rightarrow>
          (case py_iter params of
             None \<Rightarrow> Raise (TypeError ''object is not iterable'') h
           | Some ps \<Rightarrow>
               (case bind_all (dict_at h fenv) (zip ps args) of
                  Inl e \<Rightarrow> Raise e h
                | Inr d \<Rightarrow> (case alloc h d of (local_env, h1) \<Rightarrow> ev body local_env h1)))
      | _ \<Rightarrow> Raise (TypeError ''object is not callable'') h)"

definition make_fn :: "obj3 val \<Rightarrow> obj3 val \<Rightarrow> nat \<Rightarrow> obj3 heap \<Rightarrow> obj3 val \<times> obj3 heap" where
  "make_fn params body env h = (VObj (Fn (fresh h) params body env), h\<lparr>fresh := Suc (fresh h)\<rparr>)"

fun eval_cond3 :: "evaluator3 \<Rightarrow> obj3 val list \<Rightarrow> nat \<Rightarrow> obj3 heap \<Rightarrow> (obj3 val, obj3 heap) result" where
  "eval_cond3 ev [] env h = Return (VList []) h"
| "eval_cond3 ev (clause # clauses) env h =
     (case py_index clause 0 of
        Inl e \<Rightarrow> Raise e h
      | Inr test \<Rightarrow>
          (case ev test env h of
             Return test_val h1 \<Rightarrow>
               if py_eq test_val (VList []) then eval_cond3 ev clauses env h1
               else (case py_index clause 1 of
                       Inl e \<Rightarrow> Raise e h1
                     | Inr expr \<Rightarrow> ev expr env h1)
           | other \<Rightarrow> other))"

definition eval_form3 ::
  "evaluator3 \<Rightarrow> obj3 val \<Rightarrow> obj3 val list \<Rightarrow> nat \<Rightarrow> obj3 heap \<Rightarrow> (obj3 val, obj3 heap) result" where
  "eval_form3 ev op rest env h =
     (if op = VStr ''quote'' then
        (case rest of [] \<Rightarrow> Raise IndexError h | e # _ \<Rightarrow> Return e h)
      else if op = VStr ''atom'' then
        (case dict_index (dict_at h env) (VStr ''atom'') of
           Inl e \<Rightarrow> Raise e h
         | Inr f \<Rightarrow>
             (case rest of
                [] \<Rightarrow> Raise IndexError h
              | e1 # _ \<Rightarrow>
                  (case ev e1 env h of
                     Return v h1 \<Rightarrow> call3 ev f [v] h1
                   | other \<Rightarrow> other)))
      else if op = VStr ''eq'' then
        (case dict_index (dict_at h env) (VStr ''eq'') of
           Inl e \<Rightarrow> Raise e h
         | Inr f \<Rightarrow>
             (case rest of
                [] \<Rightarrow> Raise IndexError h
              | e1 # rest1 \<Rightarrow>
                  (case ev e1 env h of
                     Return va h1 \<Rightarrow>
                       (case rest1 of
                          [] \<Rightarrow> Raise IndexError h1
                        | e2 # _ \<Rightarrow>
                            (case ev e2 env h1 of
                               Return vb h2 \<Rightarrow> call3 ev f [va, vb] h2
                             | other \<Rightarrow> other))
                   | other \<Rightarrow> other)))
      else if op = VStr ''cons'' \<or> op = VStr ''car'' \<or> op = VStr ''cdr'' then
        (case eval_args3 ev rest env h of
           Timeout \<Rightarrow> Timeout
         | Raise e h1 \<Rightarrow> Raise e h1
         | Return args h1 \<Rightarrow>
             (case dict_index (dict_at h1 env) op of
                Inl e \<Rightarrow> Raise e h1
              | Inr f \<Rightarrow> call3 ev f args h1))
      else if op = VStr ''cond'' then eval_cond3 ev rest env h
      else if op = VStr ''defun'' then
        (case rest of
           [name, params, body] \<Rightarrow>
             (case make_fn params body env h of (fn, h1) \<Rightarrow> store_name h1 env name fn)
         | _ \<Rightarrow> Raise ValueError h)
      else if op = VStr ''lambda'' then
        (case rest of
           [params, body] \<Rightarrow> (case make_fn params body env h of (fn, h1) \<Rightarrow> Return fn h1)
         | _ \<Rightarrow> Raise ValueError h)
      else
        (case ev op env h of
           Return func h1 \<Rightarrow>
             (case eval_args3 ev rest env h1 of
                Timeout \<Rightarrow> Timeout
              | Raise e h2 \<Rightarrow> Raise e h2
              | Return args h2 \<Rightarrow> call3 ev func args h2)
         | other \<Rightarrow> other))"

text \<open>
  \<^verbatim>\<open>eval_lisp(x, env)\<close> of \<^verbatim>\<open>lisp3.py\<close>: a string is looked up with
  \<^verbatim>\<open>env.get(x, x)\<close>, so a symbol without a binding evaluates to itself.
\<close>

definition eval_lisp3_body :: "evaluator3 \<Rightarrow> evaluator3" where
  "eval_lisp3_body ev x env h =
     (case x of
        VStr name \<Rightarrow> Return (case dict_get (dict_at h env) x of Some v \<Rightarrow> v | None \<Rightarrow> x) h
      | VList [] \<Rightarrow> Return (VList []) h
      | VList (op # rest) \<Rightarrow> eval_form3 ev op rest env h
      | _ \<Rightarrow> Return x h)"

primrec eval_lisp3 :: "nat \<Rightarrow> evaluator3" where
  "eval_lisp3 0 = (\<lambda>x env h. Timeout)"
| "eval_lisp3 (Suc fuel) = eval_lisp3_body (eval_lisp3 fuel)"

fun run_exprs3 :: "nat \<Rightarrow> obj3 val \<Rightarrow> obj3 val list \<Rightarrow> nat \<Rightarrow> obj3 heap \<Rightarrow> (obj3 val, obj3 heap) result" where
  "run_exprs3 fuel lastv [] env h = Return lastv h"
| "run_exprs3 fuel lastv (ex # exprs) env h =
     (case eval_lisp3 fuel ex env h of
        Return v h1 \<Rightarrow> run_exprs3 fuel v exprs env h1
      | other \<Rightarrow> other)"

section \<open>Tokenizers and printers\<close>

subsection \<open>\<^verbatim>\<open>tokenize\<close>\<close>

text \<open>\<^verbatim>\<open>s.replace(c, r)\<close> for a one-character pattern, and \<^verbatim>\<open>s.split()\<close>.\<close>

definition replace_char :: "char \<Rightarrow> string \<Rightarrow> string \<Rightarrow> string" where
  "replace_char c r s = concat (map (\<lambda>x. if x = c then r else [x]) s)"

fun split_from :: "string \<Rightarrow> string \<Rightarrow> string list" where
  "split_from cur [] = (if cur = [] then [] else [cur])"
| "split_from cur (c # s) =
     (if py_isspace c then (if cur = [] then split_from [] s else cur # split_from [] s)
      else split_from (cur @ [c]) s)"

definition py_split :: "string \<Rightarrow> string list" where
  "py_split s = split_from [] s"

definition lisp_tokenize :: "string \<Rightarrow> string list" where
  "lisp_tokenize src = py_split (replace_char CHR '')'' '' ) '' (replace_char CHR ''('' '' ( '' src))"

definition lisp2_tokenize :: "string \<Rightarrow> string list" where
  "lisp2_tokenize s =
     filter (\<lambda>tok. tok \<noteq> [])
       (py_split (replace_char CHR '')'' '' ) ''
          (replace_char CHR ''('' '' ( '' (replace_char (CHR 0x27) [CHR '' '', CHR 0x27, CHR '' ''] s))))"

definition parse_str :: "string \<Rightarrow> (error + 'c val) \<times> string list" where
  "parse_str s = lisp2_parse atomize (lisp2_tokenize s)"

text \<open>
  \<^verbatim>\<open>re.findall(r"\(|\)|'|[^\s()']+", src)\<close>: a parenthesis or a quote is a token, a
  maximal run of other characters that are not white space is a token.
\<close>

definition is_delim :: "char \<Rightarrow> bool" where
  "is_delim c = (c = CHR ''('' \<or> c = CHR '')'' \<or> c = CHR 0x27)"

fun scan_from :: "string \<Rightarrow> string \<Rightarrow> string list" where
  "scan_from cur [] = (if cur = [] then [] else [cur])"
| "scan_from cur (c # s) =
     (if is_delim c then (if cur = [] then [c] # scan_from [] s else cur # [c] # scan_from [] s)
      else if py_isspace c then (if cur = [] then scan_from [] s else cur # scan_from [] s)
      else scan_from (cur @ [c]) s)"

definition lisp3_tokenize :: "string \<Rightarrow> string list" where
  "lisp3_tokenize src = scan_from [] src"

subsection \<open>\<^verbatim>\<open>lisp_to_str\<close>\<close>

text \<open>
  \<^verbatim>\<open>str(x)\<close> of a closure or of a host function is a host representation (it shows
  a memory address), and \<^verbatim>\<open>str(x)\<close> of a float is its shortest decimal form, which the
  embedding does not compute; the printers answer \<open>None\<close> for these.
\<close>

fun join_sp :: "string list \<Rightarrow> string" where
  "join_sp [] = []"
| "join_sp [s] = s"
| "join_sp (s # t # ss) = s @ CHR '' '' # join_sp (t # ss)"

fun lisp2_to_str :: "'c val \<Rightarrow> string option" where
  "lisp2_to_str (VList []) = Some ''NIL''"
| "lisp2_to_str (VList (e # es)) =
     map_option (\<lambda>ss. ''('' @ join_sp ss @ '')'') (those (map lisp2_to_str (e # es)))"
| "lisp2_to_str (VBool True) = Some ''T''"
| "lisp2_to_str (VBool False) = Some ''NIL''"
| "lisp2_to_str VNone = Some ''NIL''"
| "lisp2_to_str (VInt i) = Some (py_str_int i)"
| "lisp2_to_str (VStr s) = Some s"
| "lisp2_to_str (VFloat q) = None"
| "lisp2_to_str (VObj c) = None"

fun lisp3_to_str :: "'c val \<Rightarrow> string option" where
  "lisp3_to_str (VList []) = Some ''NIL''"
| "lisp3_to_str (VBool True) = Some ''T''"
| "lisp3_to_str (VList (e # es)) =
     map_option (\<lambda>ss. ''('' @ join_sp ss @ '')'') (those (map lisp3_to_str (e # es)))"
| "lisp3_to_str (VBool False) = Some ''False''"
| "lisp3_to_str VNone = Some ''None''"
| "lisp3_to_str (VInt i) = Some (py_str_int i)"
| "lisp3_to_str (VStr s) = Some s"
| "lisp3_to_str (VFloat q) = None"
| "lisp3_to_str (VObj c) = None"

section \<open>Auxiliary notions for the statements\<close>

text \<open>What an evaluation produced: nothing within the fuel, an exception, or a value.\<close>

fun outcome :: "('a, 's) result \<Rightarrow> (error + 'a) option" where
  "outcome Timeout = None"
| "outcome (Raise e s) = Some (Inl e)"
| "outcome (Return v s) = Some (Inr v)"

text \<open>The chain of environments from \<open>a\<close> outwards, innermost first.\<close>

function chain :: "'c env list \<Rightarrow> nat \<Rightarrow> nat list" where
  "chain es a =
     (if a < length es then
        a # (case outer (es ! a) of None \<Rightarrow> [] | Some p \<Rightarrow> if p < a then chain es p else [])
      else [])"
  by pat_completeness auto
termination chain
  by (relation "measure (\<lambda>(es, a). a)") auto

declare chain.simps [simp del]

definition owns :: "'c env list \<Rightarrow> 'c val \<Rightarrow> nat \<Rightarrow> bool" where
  "owns es var a = (dict_get (binds (es ! a)) var \<noteq> None)"


text \<open>
  A store of \<^verbatim>\<open>lisp.py\<close> with \<^verbatim>\<open>x\<close> bound in the outer environment 0 and an empty
  inner environment 1, used as a concrete input below.
\<close>

definition two_envs :: store where
  "two_envs = \<lparr>envs = [\<lparr>binds = [(VStr ''x'', VInt 1)], outer = None\<rparr>,
                        \<lparr>binds = [], outer = Some 0\<rparr>], next_id = 0\<rparr>"

text \<open>
  Values that are printed and read back unchanged: integers, symbols that are a single
  token which the atom reader \<open>atom\<close> takes for a symbol, and non-empty lists of such
  values. \<open>render\<close> is the text they are printed as, \<open>tokens_of\<close> its tokens.
\<close>

definition clean_char :: "char \<Rightarrow> bool" where
  "clean_char c = (\<not> py_isspace c \<and> \<not> is_delim c)"

definition clean_token :: "string \<Rightarrow> bool" where
  "clean_token s = (s \<noteq> [] \<and> list_all clean_char s)"

fun readable :: "(string \<Rightarrow> 'c val) \<Rightarrow> 'c val \<Rightarrow> bool" where
  "readable atom (VInt i) = (atom (py_str_int i) = VInt i)"
| "readable atom (VStr s) = (clean_token s \<and> atom s = VStr s)"
| "readable atom (VList xs) = (xs \<noteq> [] \<and> list_all (readable atom) xs)"
| "readable atom v = False"

fun render :: "'c val \<Rightarrow> string" where
  "render (VInt i) = py_str_int i"
| "render (VStr s) = s"
| "render (VList xs) = ''('' @ join_sp (map render xs) @ '')''"
| "render v = []"

fun tokens_of :: "'c val \<Rightarrow> string list" where
  "tokens_of (VInt i) = [py_str_int i]"
| "tokens_of (VStr s) = [s]"
| "tokens_of (VList xs) = ''('' # concat (map tokens_of xs) @ ['')'']"
| "tokens_of v = []"

text \<open>The text after the three \<^verbatim>\<open>replace\<close> calls of \<^verbatim>\<open>tokenize\<close> in \<^verbatim>\<open>lisp2.py\<close>.\<close>

definition spaced :: "string \<Rightarrow> string" where
  "spaced s = replace_char CHR '')'' '' ) '' (replace_char CHR ''('' '' ( ''
                (replace_char (CHR 0x27) [CHR '' '', CHR 0x27, CHR '' ''] s))"

definition boundary :: "string \<Rightarrow> bool" where
  "boundary rest = (case rest of [] \<Rightarrow> True | c # _ \<Rightarrow> py_isspace c \<or> is_delim c)"

definition dstep :: "nat \<Rightarrow> char \<Rightarrow> nat" where
  "dstep acc c = 10 * acc + digit_val c"

section \<open>Properties of the parsers\<close>

text \<open>
  C8. The claim: \<^verbatim>\<open>parse\<close> raises \<^verbatim>\<open>SyntaxError\<close> (unexpected EOF) whenever the tokens
  run out before an open list is closed, and no other host error escapes. At the token
  list that holds a single opening parenthesis, each of the three parsers evaluates
  \<^verbatim>\<open>tokens[0]\<close> on the empty list and leaves with \<^verbatim>\<open>IndexError\<close>; with one element after
  the parenthesis, \<^verbatim>\<open>lisp.py\<close> and \<^verbatim>\<open>lisp3.py\<close> do the same, and only \<^verbatim>\<open>lisp2.py\<close>
  reaches its \<^verbatim>\<open>SyntaxError\<close>.
\<close>

theorem parse_open_paren_IndexError:
  "lisp_parse atom [''(''] = (Inl IndexError, [])
   \<and> lisp2_parse atom [''(''] = (Inl IndexError, [])
   \<and> lisp3_parse atom [''(''] = (Inl IndexError, [])
   \<and> lisp_parse atom [''('', ''a''] = (Inl IndexError, [])
   \<and> lisp3_parse atom [''('', ''a''] = (Inl IndexError, [])
   \<and> lisp2_parse atom [''('', ''a''] = (Inl (SyntaxError ''unexpected EOF while reading list''), [])"
  by (simp add: lisp_parse.simps lisp_parse_loop.simps lisp2_parse.simps lisp2_parse_loop.simps
        lisp3_parse.simps lisp3_parse_loop.simps)

section \<open>Printing and reading integers\<close>

lemma of_char_digit_char: "d < 10 \<Longrightarrow> (of_char (digit_char d) :: nat) = 48 + d"
  by (simp add: digit_char_def)

lemma digit_char_is_digit: "d < 10 \<Longrightarrow> is_digit (digit_char d)"
  by (simp add: is_digit_def of_char_digit_char)

lemma digit_val_digit_char: "d < 10 \<Longrightarrow> digit_val (digit_char d) = d"
  by (simp add: digit_val_def of_char_digit_char)

lemma is_digit_not_space: "is_digit c \<Longrightarrow> \<not> py_isspace c"
  by (auto simp: is_digit_def py_isspace_def Let_def)

lemma is_digit_not_delim: "is_digit c \<Longrightarrow> \<not> is_delim c"
  by (auto simp: is_digit_def is_delim_def Let_def)

lemma is_digit_not_sign: "is_digit c \<Longrightarrow> c \<noteq> CHR ''-'' \<and> c \<noteq> CHR ''+'' \<and> c \<noteq> CHR ''_''"
  by (auto simp: is_digit_def Let_def)

lemma digits_of_all_digits: "list_all is_digit (digits_of n)"
proof (induction n rule: digits_of.induct)
  case (1 n)
  then show ?case
    by (subst digits_of.simps) (auto simp: digit_char_is_digit)
qed

lemma digits_of_nonempty: "digits_of n \<noteq> []"
  by (subst digits_of.simps) simp

lemma dstep_apply: "dstep acc c = 10 * acc + digit_val c"
  by (simp add: dstep_def)

lemma digitpart_digits: "list_all is_digit ds \<Longrightarrow> digitpart acc ds = Some (foldl dstep acc ds)"
  by (induction acc ds rule: digitpart.induct) (auto simp: dstep_apply)

lemma foldl_digits_of: "foldl dstep 0 (digits_of n) = n"
proof (induction n rule: digits_of.induct)
  case (1 n)
  show ?case
  proof (cases "n < 10")
    case True
    then have "digits_of n = [digit_char n]" by (subst digits_of.simps) simp
    moreover have "dstep 0 (digit_char n) = n"
      unfolding dstep_apply using True by (simp add: digit_val_digit_char)
    ultimately show ?thesis by simp
  next
    case False
    with 1 have step: "foldl dstep 0 (digits_of n) = dstep (n div 10) (digit_char (n mod 10))"
      by (subst digits_of.simps) simp
    have "dstep (n div 10) (digit_char (n mod 10)) = n"
      unfolding dstep_apply by (simp add: digit_val_digit_char)
    with step show ?thesis by (rule trans)
  qed
qed

lemma py_digits_digits_of: "py_digits (digits_of n) = Some n"
proof -
  obtain c r where cr: "digits_of n = c # r"
    using digits_of_nonempty[of n] by (cases "digits_of n") auto
  have all: "list_all is_digit (c # r)" using digits_of_all_digits[of n] cr by simp
  then have "digitpart (digit_val c) r = Some (foldl dstep (digit_val c) r)"
    by (simp add: digitpart_digits)
  also have "foldl dstep (digit_val c) r = foldl dstep 0 (c # r)"
    unfolding foldl_Cons dstep_apply[of 0 c] by simp
  also have "\<dots> = n" using foldl_digits_of[of n] cr by simp
  finally show ?thesis using all cr by (simp add: py_digits_def)
qed

lemma py_strip_id: "s \<noteq> [] \<Longrightarrow> \<not> py_isspace (hd s) \<Longrightarrow> \<not> py_isspace (last s) \<Longrightarrow> py_strip s = s"
proof -
  assume a: "s \<noteq> []" "\<not> py_isspace (hd s)" "\<not> py_isspace (last s)"
  then have 1: "dropWhile py_isspace s = s" by (cases s) auto
  from a have "rev s \<noteq> []" "\<not> py_isspace (hd (rev s))" by (auto simp: hd_rev)
  then have 2: "dropWhile py_isspace (rev s) = rev s" by (cases "rev s") auto
  show ?thesis by (simp add: py_strip_def 1 2)
qed

lemma py_strip_no_space: "s \<noteq> [] \<Longrightarrow> list_all (\<lambda>c. \<not> py_isspace c) s \<Longrightarrow> py_strip s = s"
  by (rule py_strip_id) (auto simp: list_all_iff)

lemma minus_clean: "clean_char CHR ''-''"
  by (simp add: clean_char_def py_isspace_def is_delim_def)

lemma digit_clean: "is_digit c \<Longrightarrow> clean_char c"
  by (simp add: clean_char_def is_digit_not_space is_digit_not_delim)

lemma py_int_py_str_int: "py_int (py_str_int i) = Some i"
proof (cases "i < 0")
  case True
  let ?ds = "digits_of (nat (- i))"
  have ns: "list_all (\<lambda>c. \<not> py_isspace c) (CHR ''-'' # ?ds)"
    using digits_of_all_digits[of "nat (- i)"] minus_clean
    by (auto simp: list_all_iff clean_char_def dest: is_digit_not_space)
  have "py_strip (CHR ''-'' # ?ds) = CHR ''-'' # ?ds"
    by (rule py_strip_no_space) (use ns in auto)
  with True show ?thesis
    by (simp add: py_int_def py_str_int_def py_digits_digits_of)
next
  case False
  let ?ds = "digits_of (nat i)"
  obtain c r where cr: "?ds = c # r"
    using digits_of_nonempty[of "nat i"] by (cases ?ds) auto
  have dig: "list_all is_digit (c # r)" using digits_of_all_digits[of "nat i"] cr by simp
  then have ns: "list_all (\<lambda>c. \<not> py_isspace c) ?ds"
    using cr by (auto simp: list_all_iff is_digit_not_space)
  have strip: "py_strip ?ds = ?ds"
    by (rule py_strip_no_space) (use ns digits_of_nonempty in auto)
  have "c \<noteq> CHR ''-''" "c \<noteq> CHR ''+''" using dig is_digit_not_sign by auto
  with False strip cr py_digits_digits_of[of "nat i"] show ?thesis
    by (simp add: py_int_def py_str_int_def)
qed


lemma py_str_int_clean: "py_str_int i \<noteq> [] \<and> list_all clean_char (py_str_int i)"
  using digits_of_all_digits[of "nat i"] digits_of_all_digits[of "nat (- i)"] digits_of_nonempty
  by (auto simp: py_str_int_def list_all_iff minus_clean dest: digit_clean)

section \<open>Printing and reading values\<close>

subsection \<open>The tokenizers of \<^verbatim>\<open>lisp2.py\<close> and \<^verbatim>\<open>lisp3.py\<close> agree\<close>

lemma delim_not_space: "is_delim c \<Longrightarrow> \<not> py_isspace c"
  by (auto simp: is_delim_def py_isspace_def)

lemma space_is_space: "py_isspace CHR '' ''"
  by (simp add: py_isspace_def)

lemma replace_char_Cons: "replace_char c r (x # xs) = (if x = c then r else [x]) @ replace_char c r xs"
  by (simp add: replace_char_def)

lemma replace_char_Nil: "replace_char c r [] = []"
  by (simp add: replace_char_def)

lemma replace_char_append: "replace_char c r (a @ b) = replace_char c r a @ replace_char c r b"
  by (simp add: replace_char_def)

lemma spaced_Nil: "spaced [] = []"
  by (simp add: spaced_def replace_char_Nil)

lemma spaced_Cons:
  "spaced (c # s) = (if is_delim c then [CHR '' '', c, CHR '' ''] else [c]) @ spaced s"
  by (auto simp: spaced_def replace_char_Cons replace_char_append replace_char_Nil is_delim_def)

lemma split_from_nonempty: "[] \<notin> set (split_from cur s)"
  by (induction cur s rule: split_from.induct) auto

lemma split_spaced: "split_from cur (spaced s) = scan_from cur s"
proof (induction s arbitrary: cur)
  case Nil
  then show ?case by (simp add: spaced_Nil)
next
  case (Cons c s)
  show ?case
  proof (cases "is_delim c")
    case True
    then show ?thesis
      using Cons[of "[]"] by (simp add: spaced_Cons space_is_space delim_not_space)
  next
    case False
    then show ?thesis
      using Cons[of "[]"] Cons[of "cur @ [c]"] by (simp add: spaced_Cons)
  qed
qed

lemma lisp2_tokenize_scan: "lisp2_tokenize s = scan_from [] s"
proof -
  have "lisp2_tokenize s = filter (\<lambda>tok. tok \<noteq> []) (split_from [] (spaced s))"
    by (simp add: lisp2_tokenize_def py_split_def spaced_def)
  also have "\<dots> = split_from [] (spaced s)"
    using split_from_nonempty[of "[]" "spaced s"] by (auto intro!: filter_True)
  finally show ?thesis by (simp add: split_spaced)
qed

subsection \<open>Tokens of a printed value\<close>

lemma scan_clean_run: "list_all clean_char t \<Longrightarrow> scan_from cur (t @ rest) = scan_from (cur @ t) rest"
  by (induction t arbitrary: cur) (auto simp: clean_char_def)

lemma scan_flush: "cur \<noteq> [] \<Longrightarrow> boundary rest \<Longrightarrow> scan_from cur rest = cur # scan_from [] rest"
  by (cases rest) (auto simp: boundary_def delim_not_space)

lemma scan_token: "clean_token t \<Longrightarrow> boundary rest \<Longrightarrow> scan_from [] (t @ rest) = t # scan_from [] rest"
  by (simp add: clean_token_def scan_clean_run scan_flush)

lemma scan_open: "scan_from [] (CHR ''('' # rest) = ''('' # scan_from [] rest"
  by (simp add: is_delim_def)

lemma scan_close: "scan_from [] (CHR '')'' # rest) = '')'' # scan_from [] rest"
  by (simp add: is_delim_def)

lemma scan_space: "scan_from [] (CHR '' '' # rest) = scan_from [] rest"
  by (simp add: is_delim_def space_is_space)

lemma boundary_close: "boundary (CHR '')'' # rest)"
  by (simp add: boundary_def is_delim_def)

lemma boundary_space: "boundary (CHR '' '' # rest)"
  by (simp add: boundary_def space_is_space)

lemma scan_join:
  assumes "\<And>x rest. x \<in> set xs \<Longrightarrow> boundary rest \<Longrightarrow>
             scan_from [] (render x @ rest) = tokens_of x @ scan_from [] rest"
    and "xs \<noteq> []"
  shows "scan_from [] (join_sp (map render xs) @ CHR '')'' # rest) =
           concat (map tokens_of xs) @ '')'' # scan_from [] rest"
  using assms
proof (induction xs rule: induct_list012)
  case 1
  then show ?case by simp
next
  case (2 x)
  have "scan_from [] (render x @ CHR '')'' # rest) = tokens_of x @ scan_from [] (CHR '')'' # rest)"
    by (rule "2.prems"(1)) (simp_all add: boundary_close)
  then show ?case by (simp add: scan_close del: scan_from.simps)
next
  case (3 x y ys)
  have "scan_from [] (render x @ CHR '' '' # join_sp (map render (y # ys)) @ CHR '')'' # rest)
        = tokens_of x @ scan_from [] (CHR '' '' # join_sp (map render (y # ys)) @ CHR '')'' # rest)"
    by (rule "3.prems"(1)) (simp_all add: boundary_space)
  moreover have "scan_from [] (join_sp (map render (y # ys)) @ CHR '')'' # rest) =
           concat (map tokens_of (y # ys)) @ '')'' # scan_from [] rest"
    by (rule "3.IH"(2)) (use "3.prems" in auto)
  ultimately show ?case by (simp add: scan_space del: scan_from.simps)
qed


lemma py_str_int_clean_token: "clean_token (py_str_int i)"
  using py_str_int_clean[of i] by (simp add: clean_token_def)

lemma scan_render:
  "readable atom v \<Longrightarrow> boundary rest \<Longrightarrow>
     scan_from [] (render v @ rest) = tokens_of v @ scan_from [] rest"
proof (induction v arbitrary: rest)
  case (VInt i)
  then show ?case by (simp add: scan_token py_str_int_clean_token del: scan_from.simps)
next
  case (VStr s)
  then show ?case by (simp add: scan_token del: scan_from.simps)
next
  case (VList xs)
  have "scan_from [] (join_sp (map render xs) @ CHR '')'' # rest) =
           concat (map tokens_of xs) @ '')'' # scan_from [] rest"
  proof (rule scan_join)
    fix x r assume "x \<in> set xs" "boundary r"
    with VList show "scan_from [] (render x @ r) = tokens_of x @ scan_from [] r"
      by (auto simp: list_all_iff)
  next
    from VList.prems show "xs \<noteq> []" by simp
  qed
  then show ?case by (simp add: scan_open del: scan_from.simps)
qed simp_all

lemma those_map_Some: "(\<And>x. x \<in> set xs \<Longrightarrow> f x = Some (g x)) \<Longrightarrow> those (map f xs) = Some (map g xs)"
  by (induction xs) auto

lemma lisp2_to_str_render: "readable atom v \<Longrightarrow> lisp2_to_str v = Some (render v)"
proof (induction v)
  case (VList xs)
  then obtain e es where xs: "xs = e # es" by (cases xs) auto
  have "those (map lisp2_to_str xs) = Some (map render xs)"
    by (rule those_map_Some) (use VList in \<open>auto simp: list_all_iff\<close>)
  then show ?case using xs by simp
qed simp_all

lemma lisp3_to_str_render: "readable atom v \<Longrightarrow> lisp3_to_str v = Some (render v)"
proof (induction v)
  case (VList xs)
  then obtain e es where xs: "xs = e # es" by (cases xs) auto
  have "those (map lisp3_to_str xs) = Some (map render xs)"
    by (rule those_map_Some) (use VList in \<open>auto simp: list_all_iff\<close>)
  then show ?case using xs by simp
qed simp_all

subsection \<open>Parsing the tokens of a printed value\<close>

lemma clean_token_not_special:
  "clean_token t \<Longrightarrow> t \<noteq> ''('' \<and> t \<noteq> '')'' \<and> t \<noteq> [CHR 0x27]"
  by (auto simp: clean_token_def clean_char_def is_delim_def)

lemma tokens_of_head:
  "readable atom v \<Longrightarrow> \<exists>t ts. tokens_of v = t # ts \<and> t \<noteq> '')''"
  using clean_token_not_special py_str_int_clean_token
  by (cases v) auto

lemma lisp2_parse_token:
  "clean_token t \<Longrightarrow> lisp2_parse atom (t # rest) = (Inr (atom t), rest)"
  using clean_token_not_special[of t] by (simp add: lisp2_parse.simps)

lemma lisp2_loop_elems:
  assumes "\<And>x rest. x \<in> set xs \<Longrightarrow> lisp2_parse atom (tokens_of x @ rest) = (Inr x, rest)"
    and "list_all (readable atom) xs"
  shows "lisp2_parse_loop atom acc (concat (map tokens_of xs) @ '')'' # rest) =
           (Inr (VList (acc @ xs)), rest)"
  using assms
proof (induction xs arbitrary: acc)
  case Nil
  then show ?case by (simp add: lisp2_parse_loop.simps)
next
  case (Cons x xs)
  from Cons.prems(2) obtain t ts where t: "tokens_of x = t # ts" "t \<noteq> '')''"
    using tokens_of_head[of atom x] by auto
  let ?rest = "concat (map tokens_of xs) @ '')'' # rest"
  have p: "lisp2_parse atom (tokens_of x @ ?rest) = (Inr x, ?rest)"
    by (rule Cons.prems(1)) simp
  have l: "lisp2_parse_loop atom (acc @ [x]) ?rest = (Inr (VList ((acc @ [x]) @ xs)), rest)"
    by (rule Cons.IH) (use Cons.prems in auto)
  have "lisp2_parse_loop atom acc (tokens_of x @ ?rest) = lisp2_parse_loop atom (acc @ [x]) ?rest"
    using t p by (subst lisp2_parse_loop.simps) (simp del: tokens_of.simps)
  with l show ?case by simp
qed

lemma lisp2_parse_tokens:
  "readable atom v \<Longrightarrow> lisp2_parse atom (tokens_of v @ rest) = (Inr v, rest)"
proof (induction v arbitrary: rest)
  case (VInt i)
  then show ?case by (simp add: lisp2_parse_token py_str_int_clean_token)
next
  case (VStr s)
  then show ?case by (simp add: lisp2_parse_token)
next
  case (VList xs)
  have "lisp2_parse_loop atom [] (concat (map tokens_of xs) @ '')'' # rest) = (Inr (VList ([] @ xs)), rest)"
  proof (rule lisp2_loop_elems)
    fix x r assume "x \<in> set xs"
    with VList show "lisp2_parse atom (tokens_of x @ r) = (Inr x, r)"
      by (auto simp: list_all_iff)
  next
    from VList.prems show "list_all (readable atom) xs" by simp
  qed
  then show ?case by (simp add: lisp2_parse.simps)
qed simp_all

lemma lisp3_parse_token:
  "clean_token t \<Longrightarrow> lisp3_parse atom (t # rest) = (Inr (atom t), rest)"
  using clean_token_not_special[of t] by (simp add: lisp3_parse.simps)

lemma lisp3_loop_elems:
  assumes "\<And>x rest. x \<in> set xs \<Longrightarrow> lisp3_parse atom (tokens_of x @ rest) = (Inr x, rest)"
    and "list_all (readable atom) xs"
  shows "lisp3_parse_loop atom acc (concat (map tokens_of xs) @ '')'' # rest) =
           (Inr (VList (acc @ xs)), rest)"
  using assms
proof (induction xs arbitrary: acc)
  case Nil
  then show ?case by (simp add: lisp3_parse_loop.simps)
next
  case (Cons x xs)
  from Cons.prems(2) obtain t ts where t: "tokens_of x = t # ts" "t \<noteq> '')''"
    using tokens_of_head[of atom x] by auto
  let ?rest = "concat (map tokens_of xs) @ '')'' # rest"
  have p: "lisp3_parse atom (tokens_of x @ ?rest) = (Inr x, ?rest)"
    by (rule Cons.prems(1)) simp
  have l: "lisp3_parse_loop atom (acc @ [x]) ?rest = (Inr (VList ((acc @ [x]) @ xs)), rest)"
    by (rule Cons.IH) (use Cons.prems in auto)
  have "lisp3_parse_loop atom acc (tokens_of x @ ?rest) = lisp3_parse_loop atom (acc @ [x]) ?rest"
    using t p by (subst lisp3_parse_loop.simps) (simp del: tokens_of.simps)
  with l show ?case by simp
qed

lemma lisp3_parse_tokens:
  "readable atom v \<Longrightarrow> lisp3_parse atom (tokens_of v @ rest) = (Inr v, rest)"
proof (induction v arbitrary: rest)
  case (VInt i)
  then show ?case by (simp add: lisp3_parse_token py_str_int_clean_token)
next
  case (VStr s)
  then show ?case by (simp add: lisp3_parse_token)
next
  case (VList xs)
  have "lisp3_parse_loop atom [] (concat (map tokens_of xs) @ '')'' # rest) = (Inr (VList ([] @ xs)), rest)"
  proof (rule lisp3_loop_elems)
    fix x r assume "x \<in> set xs"
    with VList show "lisp3_parse atom (tokens_of x @ r) = (Inr x, r)"
      by (auto simp: list_all_iff)
  next
    from VList.prems show "list_all (readable atom) xs" by simp
  qed
  then show ?case by (simp add: lisp3_parse.simps)
qed simp_all

lemma tokenize_render:
  "readable atom v \<Longrightarrow> lisp2_tokenize (render v) = tokens_of v \<and> lisp3_tokenize (render v) = tokens_of v"
  using scan_render[of atom v "[]"]
  by (simp add: lisp2_tokenize_scan lisp3_tokenize_def boundary_def)

text \<open>What \<^verbatim>\<open>atomize\<close> takes for a symbol.\<close>

lemma readable_atomize:
  "readable atomize (VInt i)"
  "readable atomize (VStr s) \<longleftrightarrow> clean_token s \<and> py_int s = None"
  by (auto simp: atomize_def py_int_py_str_int split: option.splits)

lemma readable_lisp3_atom:
  "readable (lisp3_atom rd) (VInt i)"
  "clean_token s \<Longrightarrow> py_int s = None \<Longrightarrow> rd s = None \<Longrightarrow> readable (lisp3_atom rd) (VStr s)"
  by (auto simp: lisp3_atom_def py_int_py_str_int split: option.splits)

section \<open>Facts about the evaluators\<close>

lemma canon_nil_iff: "canon v = VList [] \<longleftrightarrow> v = VList []"
  by (cases v) auto

lemma py_eq_nil: "py_eq v (VList []) \<longleftrightarrow> v = VList []"
  by (simp add: py_eq_def canon_nil_iff)

lemma truthy_iff:
  "truthy r \<longleftrightarrow> r \<noteq> VInt 0 \<and> r \<noteq> VFloat 0 \<and> r \<noteq> VBool False \<and> r \<noteq> VNone \<and> r \<noteq> VStr []
     \<and> r \<noteq> VList []"
  by (cases r) auto

text \<open>\<^verbatim>\<open>Env.find\<close> answers the first environment of the chain that holds the name.\<close>

lemma env_find_chain: "env_find es a var = List.find (owns es var) (chain es a)"
proof (induction es a var rule: env_find.induct)
  case (1 es a var)
  show ?case
  proof (cases "a < length es")
    case False
    then show ?thesis by (simp add: env_find.simps[of es a] chain.simps[of es a])
  next
    case True
    show ?thesis
    proof (cases "owns es var a")
      case True
      with \<open>a < length es\<close> show ?thesis
        by (simp add: owns_def env_find.simps[of es a] chain.simps[of es a])
    next
      case False
      with True 1 show ?thesis
        by (cases "outer (es ! a)")
           (auto simp: owns_def env_find.simps[of es a] chain.simps[of es a])
    qed
  qed
qed

lemma find_first_owner:
  assumes "xs = pre @ a # post" and "\<forall>b\<in>set pre. \<not> P b" and "P a"
  shows "List.find P xs = Some a"
  using assms by (induction pre arbitrary: xs) auto

lemma find_no_owner:
  assumes "\<forall>b\<in>set xs. \<not> P b"
  shows "List.find P xs = None"
  using assms by (induction xs) auto


















text \<open>
  \<^verbatim>\<open>Procedure.__call__\<close> evaluates the body in a new environment whose \<^verbatim>\<open>outer\<close> is the
  environment the procedure was created in, whatever environment the call comes from.
\<close>

lemma call_procedure_child_env:
  "bind_all [] (zip ps args) = Inr d \<Longrightarrow>
   call_procedure ev (VList ps) body penv args s =
     ev body (length (envs s)) (s\<lparr>envs := envs s @ [\<lparr>binds = d, outer = Some penv\<rparr>]\<rparr>)"
  by (simp add: call_procedure_def new_env_def)

text \<open>The closure application of \<^verbatim>\<open>lisp2.py\<close> compares the two lengths before anything else.\<close>

lemma call_closure_arity:
  "length ps \<noteq> length args \<Longrightarrow>
   call_closure ev (VList ps) body cenv args h = Raise (TypeError ''argument count mismatch'') h"
  by (simp add: call_closure_def)

lemma dict_get_T: "dict_get (make_global_env mk a) (VStr ''T'') = Some (VBool True)"
  by (simp add: dict_get_def make_global_env_def)

lemma dict_get_eq: "dict_get (make_global_env mk a) (VStr ''eq'') = Some (VObj (mk Prim_eq a))"
  by (simp add: dict_get_def make_global_env_def)

lemma dict_get_NIL: "dict_get (make_global_env mk a) (VStr ''NIL'') = Some (VList [])"
  by (simp add: dict_get_def make_global_env_def)


section \<open>The claims\<close>

text \<open>
  C1. The claim: a closure captures its defining frame by reference, so a definition made
  after the closure was built is seen by a later call; after \<^verbatim>\<open>(define x 1)\<close>,
  \<^verbatim>\<open>(define f (lambda () x))\<close>, \<^verbatim>\<open>(define x 2)\<close> the call \<^verbatim>\<open>(f)\<close> returns 2. \<^verbatim>\<open>lisp.py\<close>
  does this. \<^verbatim>\<open>lisp2.py\<close> gives each closure a copy of the dictionary, taken when the
  closure is built: the same program written with its \<^verbatim>\<open>setq\<close> returns 1, and its own
  recursive \<^verbatim>\<open>fact\<close> example fails, because the copy was taken before \<^verbatim>\<open>fact\<close> was bound.
\<close>

theorem closure_capture_snapshot_lisp2:
  "outcome (run_exprs 3 VNone
     [VList [VStr ''define'', VStr ''x'', VInt 1],
      VList [VStr ''define'', VStr ''f'', VList [VStr ''lambda'', VList [], VStr ''x'']],
      VList [VStr ''define'', VStr ''x'', VInt 2],
      VList [VStr ''f'']] lisp_init) = Some (Inr (VInt 2))
   \<and> outcome (run_exprs2 3 VNone
     [VList [VStr ''setq'', VStr ''x'', VInt 1],
      VList [VStr ''setq'', VStr ''f'', VList [VStr ''lambda'', VList [], VStr ''x'']],
      VList [VStr ''setq'', VStr ''x'', VInt 2],
      VList [VStr ''f'']] 1 lisp2_init) = Some (Inr (VInt 1))
   \<and> outcome (run_exprs2 8 VNone
     [VList [VStr ''defun'', VStr ''fact'', VList [VStr ''n''],
        VList [VStr ''cond'', VList [VList [VStr ''eq'', VStr ''n'', VInt 0], VInt 1],
          VList [VStr ''T'', VList [VStr ''*'', VStr ''n'',
            VList [VStr ''fact'', VList [VStr ''-'', VStr ''n'', VInt 1]]]]]],
      VList [VStr ''fact'', VInt 5]] 1 lisp2_init) = Some (Inl (NameError ''unknown operator''))"
  by code_simp



text \<open>
  C3, as the code has it. In \<^verbatim>\<open>cond\<close> (\<^verbatim>\<open>lisp2.py\<close>, \<^verbatim>\<open>lisp3.py\<close>) a clause is taken
  when the value of its test is anything but the empty list, so 0 and the empty string
  count as true. \<^verbatim>\<open>if\<close> exists in \<^verbatim>\<open>lisp.py\<close> only and judges the value of its test
  by host truthiness: the integer 0, the float zero, \<^verbatim>\<open>False\<close>, \<^verbatim>\<open>None\<close>, the empty
  string and the empty list select the alternative, every other value the consequent.
\<close>

theorem truthiness_if_cond:
  "(eval_lisp n test env s = Return r t \<longrightarrow>
      eval_lisp (Suc n) (VList [VStr ''if'', test, conseq, alt]) env s =
        eval_lisp n (if truthy r then conseq else alt) env t)
   \<and> (truthy r \<longleftrightarrow> r \<noteq> VInt 0 \<and> r \<noteq> VFloat 0 \<and> r \<noteq> VBool False \<and> r \<noteq> VNone \<and> r \<noteq> VStr []
        \<and> r \<noteq> VList [])
   \<and> (eval_lisp2 n testb envb hb = Return tvb kb \<longrightarrow>
      eval_lisp2 (Suc n) (VList (VStr ''cond'' # VList [testb, exprb] # clausesb)) envb hb =
        (if tvb = VList [] then eval_lisp2 (Suc n) (VList (VStr ''cond'' # clausesb)) envb kb
         else eval_lisp2 n exprb envb kb))
   \<and> (eval_lisp3 n testc envc hc = Return tvc kc \<longrightarrow>
      eval_lisp3 (Suc n) (VList (VStr ''cond'' # VList [testc, exprc] # clausesc)) envc hc =
        (if tvc = VList [] then eval_lisp3 (Suc n) (VList (VStr ''cond'' # clausesc)) envc kc
         else eval_lisp3 n exprc envc kc))"
proof (intro conjI impI)
  assume "eval_lisp n test env s = Return r t"
  then show "eval_lisp (Suc n) (VList [VStr ''if'', test, conseq, alt]) env s =
        eval_lisp n (if truthy r then conseq else alt) env t"
    by (simp add: eval_lisp_body_def eval_form_def)
next
  show "truthy r \<longleftrightarrow> r \<noteq> VInt 0 \<and> r \<noteq> VFloat 0 \<and> r \<noteq> VBool False \<and> r \<noteq> VNone \<and> r \<noteq> VStr []
        \<and> r \<noteq> VList []"
    by (rule truthy_iff)
next
  assume "eval_lisp2 n testb envb hb = Return tvb kb"
  then show "eval_lisp2 (Suc n) (VList (VStr ''cond'' # VList [testb, exprb] # clausesb)) envb hb =
        (if tvb = VList [] then eval_lisp2 (Suc n) (VList (VStr ''cond'' # clausesb)) envb kb
         else eval_lisp2 n exprb envb kb)"
    by (simp add: eval_lisp2_body_def eval_form2_def py_eq_nil)
next
  assume "eval_lisp3 n testc envc hc = Return tvc kc"
  then show "eval_lisp3 (Suc n) (VList (VStr ''cond'' # VList [testc, exprc] # clausesc)) envc hc =
        (if tvc = VList [] then eval_lisp3 (Suc n) (VList (VStr ''cond'' # clausesc)) envc kc
         else eval_lisp3 n exprc envc kc)"
    by (simp add: eval_lisp3_body_def eval_form3_def py_eq_nil py_index_def)
qed

theorem truthiness_if_cond_witness:
  "eval_lisp 1 (VInt 0) 0 lisp_init = Return (VInt 0) lisp_init
   \<and> eval_lisp 2 (VList [VStr ''if'', VInt 0, VInt 1, VInt 2]) 0 lisp_init = Return (VInt 2) lisp_init
   \<and> eval_lisp 1 (VFloat 0) 0 lisp_init = Return (VFloat 0) lisp_init
   \<and> eval_lisp 2 (VList [VStr ''if'', VFloat 0, VInt 1, VInt 2]) 0 lisp_init = Return (VInt 2) lisp_init
   \<and> eval_lisp2 1 (VInt 0) 1 lisp2_init = Return (VInt 0) lisp2_init
   \<and> eval_lisp2 2 (VList [VStr ''cond'', VList [VInt 0, VInt 7]]) 1 lisp2_init = Return (VInt 7) lisp2_init
   \<and> eval_lisp3 1 (VInt 0) 0 lisp3_init = Return (VInt 0) lisp3_init
   \<and> eval_lisp3 2 (VList [VStr ''cond'', VList [VInt 0, VInt 7]]) 0 lisp3_init = Return (VInt 7) lisp3_init"
proof -
  have a: "eval_lisp 1 (VInt 0) 0 lisp_init = Return (VInt 0) lisp_init" by code_simp
  have a': "eval_lisp 1 (VInt 2) 0 lisp_init = Return (VInt 2) lisp_init" by code_simp
  have f: "eval_lisp 1 (VFloat 0) 0 lisp_init = Return (VFloat 0) lisp_init"
    by (simp add: eval_lisp_body_def)
  have b: "eval_lisp2 1 (VInt 0) 1 lisp2_init = Return (VInt 0) lisp2_init" by code_simp
  have b': "eval_lisp2 1 (VInt 7) 1 lisp2_init = Return (VInt 7) lisp2_init" by code_simp
  have c: "eval_lisp3 1 (VInt 0) 0 lisp3_init = Return (VInt 0) lisp3_init" by code_simp
  have c': "eval_lisp3 1 (VInt 7) 0 lisp3_init = Return (VInt 7) lisp3_init" by code_simp
  show ?thesis
    using truthiness_if_cond[where n = 1 and test = "VInt 0" and env = 0 and s = lisp_init
        and r = "VInt 0" and t = lisp_init and conseq = "VInt 1" and alt = "VInt 2"
        and testb = "VInt 0" and envb = 1 and hb = lisp2_init and tvb = "VInt 0" and kb = lisp2_init
        and exprb = "VInt 7" and clausesb = "[]"
        and testc = "VInt 0" and envc = 0 and hc = lisp3_init and tvc = "VInt 0" and kc = lisp3_init
        and exprc = "VInt 7" and clausesc = "[]"]
      truthiness_if_cond[where n = 1 and test = "VFloat 0" and env = 0 and s = lisp_init
        and r = "VFloat 0" and t = lisp_init and conseq = "VInt 1" and alt = "VInt 2"
        and testb = "VInt 0" and envb = 1 and hb = lisp2_init and tvb = "VInt 0" and kb = lisp2_init
        and exprb = "VInt 7" and clausesb = "[]"
        and testc = "VInt 0" and envc = 0 and hc = lisp3_init and tvc = "VInt 0" and kc = lisp3_init
        and exprc = "VInt 7" and clausesc = "[]"]
      a a' b b' c c' f
    by (simp add: numeral_2_eq_2)
qed

text \<open>
  The claim itself fails on \<^verbatim>\<open>lisp.py\<close>: with the test \<^verbatim>\<open>0\<close>, and with the empty
  string as the value of the test, \<^verbatim>\<open>if\<close> evaluates the alternative.
\<close>

theorem if_zero_counterexample:
  "outcome (eval_lisp 3 (VList [VStr ''if'', VInt 0, VList [VStr ''quote'', VStr ''yes''],
                                 VList [VStr ''quote'', VStr ''no'']]) 0 lisp_init)
     = Some (Inr (VStr ''no''))
   \<and> outcome (eval_lisp 3 (VList [VStr ''if'', VList [VStr ''quote'', VStr []],
                                 VList [VStr ''quote'', VStr ''yes''],
                                 VList [VStr ''quote'', VStr ''no'']]) 0 lisp_init)
     = Some (Inr (VStr ''no''))"
  by code_simp

text \<open>
  C4, as the code has it. In \<^verbatim>\<open>lisp.py\<close> a symbol evaluates to the value it has in the
  first environment of the chain (innermost first) that holds it, and evaluation raises
  \<^verbatim>\<open>NameError\<close> when no environment of the chain holds it. In \<^verbatim>\<open>lisp2.py\<close> and
  \<^verbatim>\<open>lisp3.py\<close>, where an environment is one dictionary, a symbol that the dictionary does
  not hold evaluates to itself.
\<close>

theorem symbol_lookup:
  "((\<forall>a\<in>set (chain (envs s) env). \<not> owns (envs s) (VStr x) a) \<longrightarrow>
       eval_lisp (Suc n) (VStr x) env s = Raise (NameError ''Undefined symbol'') s)
   \<and> (chain (envs s) env = pre @ a # post \<and> (\<forall>b\<in>set pre. \<not> owns (envs s) (VStr x) b)
        \<and> dict_get (binds (envs s ! a)) (VStr x) = Some v \<longrightarrow>
       eval_lisp (Suc n) (VStr x) env s = Return v s)
   \<and> (dict_get (dict_at hb envb) (VStr x) = None \<and> x \<noteq> ''NIL'' \<longrightarrow>
       eval_lisp2 (Suc n) (VStr x) envb hb = Return (VStr x) hb)
   \<and> (dict_get (dict_at hc envc) (VStr x) = None \<longrightarrow>
       eval_lisp3 (Suc n) (VStr x) envc hc = Return (VStr x) hc)"
proof (intro conjI impI)
  assume "\<forall>a\<in>set (chain (envs s) env). \<not> owns (envs s) (VStr x) a"
  then have "env_find (envs s) env (VStr x) = None"
    by (simp add: env_find_chain find_no_owner)
  then show "eval_lisp (Suc n) (VStr x) env s = Raise (NameError ''Undefined symbol'') s"
    by (simp add: eval_lisp_body_def)
next
  assume a: "chain (envs s) env = pre @ a # post \<and> (\<forall>b\<in>set pre. \<not> owns (envs s) (VStr x) b)
        \<and> dict_get (binds (envs s ! a)) (VStr x) = Some v"
  then have "owns (envs s) (VStr x) a" by (simp add: owns_def)
  with a have "env_find (envs s) env (VStr x) = Some a"
    unfolding env_find_chain by (intro find_first_owner[of _ pre a post]) auto
  with a show "eval_lisp (Suc n) (VStr x) env s = Return v s"
    by (simp add: eval_lisp_body_def dict_index_def lift_result_def)
next
  assume "dict_get (dict_at hb envb) (VStr x) = None \<and> x \<noteq> ''NIL''"
  then show "eval_lisp2 (Suc n) (VStr x) envb hb = Return (VStr x) hb"
    by (simp add: eval_lisp2_body_def)
next
  assume "dict_get (dict_at hc envc) (VStr x) = None"
  then show "eval_lisp3 (Suc n) (VStr x) envc hc = Return (VStr x) hc"
    by (simp add: eval_lisp3_body_def)
qed

theorem symbol_lookup_witness:
  "chain (envs two_envs) 1 = [1] @ 0 # []
   \<and> dict_get (binds (envs two_envs ! 0)) (VStr ''x'') = Some (VInt 1)
   \<and> eval_lisp 1 (VStr ''x'') 1 two_envs = Return (VInt 1) two_envs
   \<and> eval_lisp 1 (VStr ''y'') 1 two_envs = Raise (NameError ''Undefined symbol'') two_envs
   \<and> dict_get (dict_at lisp2_init 1) (VStr ''y'') = None
   \<and> eval_lisp2 1 (VStr ''y'') 1 lisp2_init = Return (VStr ''y'') lisp2_init
   \<and> dict_get (dict_at lisp3_init 0) (VStr ''y'') = None
   \<and> eval_lisp3 1 (VStr ''y'') 0 lisp3_init = Return (VStr ''y'') lisp3_init"
proof -
  have ch: "chain (envs two_envs) 1 = [1] @ 0 # []" by code_simp
  have o1: "\<not> owns (envs two_envs) (VStr ''x'') 1" by code_simp
  have g: "dict_get (binds (envs two_envs ! 0)) (VStr ''x'') = Some (VInt 1)" by code_simp
  have y1: "\<not> owns (envs two_envs) (VStr ''y'') 1" by code_simp
  have y0: "\<not> owns (envs two_envs) (VStr ''y'') 0" by code_simp
  have b: "dict_get (dict_at lisp2_init 1) (VStr ''y'') = None" by code_simp
  have c: "dict_get (dict_at lisp3_init 0) (VStr ''y'') = None" by code_simp
  show ?thesis
    using symbol_lookup[where n = 0 and s = two_envs and env = 1 and x = "''x''" and pre = "[1]"
        and a = 0 and post = "[]" and v = "VInt 1"]
      symbol_lookup[where n = 0 and s = two_envs and env = 1 and x = "''y''"
        and hb = lisp2_init and envb = 1 and hc = lisp3_init and envc = 0]
      ch o1 g y1 y0 b c
    by simp
qed

text \<open>
  The claim itself fails on \<^verbatim>\<open>lisp3.py\<close> and \<^verbatim>\<open>lisp2.py\<close>: an unbound symbol is returned as
  its own value.
\<close>

theorem unbound_symbol_counterexample:
  "eval_lisp3 1 (VStr ''undefined-symbol'') 0 lisp3_init = Return (VStr ''undefined-symbol'') lisp3_init
   \<and> eval_lisp2 1 (VStr ''undefined-symbol'') 1 lisp2_init = Return (VStr ''undefined-symbol'') lisp2_init"
  by code_simp

text \<open>
  C5. The claim: applying a closure to a number of arguments other than its number of
  parameters raises. \<^verbatim>\<open>((lambda (x y) x) 1)\<close> returns 1 in \<^verbatim>\<open>lisp.py\<close> and in \<^verbatim>\<open>lisp3.py\<close>,
  which bind with \<^verbatim>\<open>zip\<close> and never compare the two lengths; \<^verbatim>\<open>lisp2.py\<close> raises
  \<^verbatim>\<open>TypeError("argument count mismatch")\<close>, and so does the host for a primitive of
  \<^verbatim>\<open>lisp.py\<close> itself, as in \<^verbatim>\<open>(cons 1)\<close>.
\<close>

theorem arity_not_checked_lisp_lisp3:
  "outcome (eval_lisp 3 (VList [VList [VStr ''lambda'', VList [VStr ''x'', VStr ''y''], VStr ''x''], VInt 1]) 0 lisp_init)
     = Some (Inr (VInt 1))
   \<and> outcome (eval_lisp3 3 (VList [VList [VStr ''lambda'', VList [VStr ''x'', VStr ''y''], VStr ''x''], VInt 1]) 0 lisp3_init)
     = Some (Inr (VInt 1))
   \<and> outcome (eval_lisp2 3 (VList [VList [VStr ''lambda'', VList [VStr ''x'', VStr ''y''], VStr ''x''], VInt 1]) 1 lisp2_init)
     = Some (Inl (TypeError ''argument count mismatch''))
   \<and> outcome (eval_lisp 2 (VList [VStr ''cons'', VInt 1]) 0 lisp_init) = Some (Inl arity_error)"
  by code_simp

text \<open>
  C6, as the code has it. \<^verbatim>\<open>prim_cons\<close> of \<^verbatim>\<open>lisp2.py\<close> and \<^verbatim>\<open>lisp3.py\<close> raises
  \<^verbatim>\<open>TypeError\<close> when its second argument is not a list and otherwise returns the first
  argument followed by the elements of the second. \<^verbatim>\<open>cons\<close> of \<^verbatim>\<open>lisp.py\<close> does the same
  for a list and returns the two-element list of its arguments when the second is not
  a list.
\<close>

theorem cons_second_argument:
  "prim_cons a (VList ys) = Inr (VList (a # ys))
   \<and> (\<not> is_list b \<longrightarrow> prim_cons a b = Inl (TypeError ''cons second argument must be a list''))
   \<and> apply_prim2 Prim_cons d [a, b] = prim_cons a b
   \<and> apply_prim3 Prim_cons d [a, b] = prim_cons a b
   \<and> lisp_cons a (VList ys) = VList (a # ys)
   \<and> (\<not> is_list b \<longrightarrow> lisp_cons a b = VList [a, b])
   \<and> apply_builtin B_cons [a, b] = Inr (lisp_cons a b)"
  by (cases b) (simp_all add: prim_cons_def lisp_cons_def)

theorem cons_second_argument_witness:
  "\<not> is_list (VInt 2 :: obj3 val)
   \<and> prim_cons (VInt 1) (VInt 2 :: obj3 val) = Inl (TypeError ''cons second argument must be a list'')
   \<and> prim_cons (VInt 1) (VList [VInt 2] :: obj3 val) = Inr (VList [VInt 1, VInt 2])
   \<and> lisp_cons (VInt 1) (VInt 2 :: obj3 val) = VList [VInt 1, VInt 2]"
  using cons_second_argument[where a = "VInt 1 :: obj3 val" and b = "VInt 2" and ys = "[VInt 2]"
      and d = "[]"]
  by simp

text \<open>The claim itself fails on \<^verbatim>\<open>lisp.py\<close>: \<^verbatim>\<open>(cons 1 2)\<close> returns the list \<^verbatim>\<open>(1 2)\<close>.\<close>

theorem cons_counterexample:
  "outcome (eval_lisp 2 (VList [VStr ''cons'', VInt 1, VInt 2]) 0 lisp_init)
     = Some (Inr (VList [VInt 1, VInt 2]))"
  by code_simp

text \<open>
  C7, as the code has it. \<^verbatim>\<open>prim_car\<close> and \<^verbatim>\<open>prim_cdr\<close> of \<^verbatim>\<open>lisp2.py\<close> and \<^verbatim>\<open>lisp3.py\<close>
  return the empty list, without an error, for every argument that is not a non-empty
  list. In \<^verbatim>\<open>lisp.py\<close>, \<^verbatim>\<open>cdr\<close> of the empty list is the empty list, \<^verbatim>\<open>car\<close> of the empty
  list raises \<^verbatim>\<open>IndexError\<close>, and \<^verbatim>\<open>car\<close> and \<^verbatim>\<open>cdr\<close> of a value that is neither a list
  nor a string raise \<^verbatim>\<open>TypeError\<close>.
\<close>

theorem car_cdr_leniency:
  "(is_atom a \<longrightarrow> prim_car a = VList [] \<and> prim_cdr a = VList [])
   \<and> apply_prim2 Prim_car d [a] = Inr (prim_car a) \<and> apply_prim2 Prim_cdr d [a] = Inr (prim_cdr a)
   \<and> apply_prim3 Prim_car d [a] = Inr (prim_car a) \<and> apply_prim3 Prim_cdr d [a] = Inr (prim_cdr a)
   \<and> lisp_cdr (VList [] :: 'c val) = Inr (VList [])
   \<and> lisp_car (VList [] :: 'c val) = Inl IndexError
   \<and> (py_len (a :: 'c val) = None \<longrightarrow>
        lisp_car a = Inl (TypeError ''object is not subscriptable'')
        \<and> lisp_cdr a = Inl (TypeError ''object is not subscriptable''))
   \<and> apply_builtin B_car [a] = lisp_car a \<and> apply_builtin B_cdr [a] = lisp_cdr a"
  by (cases a) (auto simp: is_atom_def prim_car_def prim_cdr_def lisp_car_def lisp_cdr_def
                 split: list.splits)

theorem car_cdr_leniency_witness:
  "is_atom (VInt 5 :: obj3 val)
   \<and> prim_car (VInt 5 :: obj3 val) = VList [] \<and> prim_cdr (VInt 5 :: obj3 val) = VList []
   \<and> py_len (VInt 5 :: obj3 val) = None
   \<and> lisp_car (VInt 5 :: obj3 val) = Inl (TypeError ''object is not subscriptable'')
   \<and> lisp_cdr (VInt 5 :: obj3 val) = Inl (TypeError ''object is not subscriptable'')"
  using car_cdr_leniency[where a = "VInt 5 :: obj3 val" and d = "[]"]
  by (simp add: is_atom_def)

text \<open>The claim itself fails on \<^verbatim>\<open>lisp.py\<close>: \<^verbatim>\<open>(car 5)\<close> raises the host's \<^verbatim>\<open>TypeError\<close>.\<close>

theorem car_counterexample:
  "outcome (eval_lisp 2 (VList [VStr ''car'', VInt 5]) 0 lisp_init)
     = Some (Inl (TypeError ''object is not subscriptable''))"
  by code_simp

text \<open>
  C10, as the code has it. In a dictionary as \<^verbatim>\<open>make_global_env\<close> builds it,
  \<^verbatim>\<open>(eq T 1)\<close> evaluates to the value of \<^verbatim>\<open>T\<close> (\<^verbatim>\<open>True\<close>), with any fuel from two on, in
  \<^verbatim>\<open>lisp3.py\<close> and in \<^verbatim>\<open>lisp2.py\<close> (whose \<^verbatim>\<open>eq\<close> form calls the primitive of the module's
  \<^verbatim>\<open>global_env\<close>, at address 0): \<^verbatim>\<open>prim_eq\<close> answers \<^verbatim>\<open>T\<close> exactly when its arguments are
  equal under \<^verbatim>\<open>==\<close>, and \<^verbatim>\<open>True == 1\<close>. The false value of these interpreters is the
  empty list, which \<^verbatim>\<open>==\<close> tells apart from 0: \<^verbatim>\<open>(eq NIL 0)\<close> evaluates to \<^verbatim>\<open>NIL\<close>.
\<close>

theorem eq_true_one_nil_zero:
  "(dict_at hc envc = make_global_env Prim3 envc \<longrightarrow>
      eval_lisp3 (Suc (Suc n)) (VList [VStr ''eq'', VStr ''T'', VInt 1]) envc hc = Return (VBool True) hc
      \<and> eval_lisp3 (Suc (Suc n)) (VList [VStr ''eq'', VStr ''NIL'', VInt 0]) envc hc = Return (VList []) hc)
   \<and> (dict_at hb envb = make_global_env Prim2 envb \<and> dict_at hb 0 = make_global_env Prim2 0 \<longrightarrow>
      eval_lisp2 (Suc (Suc n)) (VList [VStr ''eq'', VStr ''T'', VInt 1]) envb hb = Return (VBool True) hb
      \<and> eval_lisp2 (Suc (Suc n)) (VList [VStr ''eq'', VStr ''NIL'', VInt 0]) envb hb = Return (VList []) hb)
   \<and> prim_eq (make_global_env mk a) (x :: 'c val) y = Inr (if py_eq x y then VBool True else VList [])
   \<and> py_eq (VBool True :: 'c val) (VInt 1)
   \<and> (py_eq (VList [] :: 'c val) (VInt 0) = False)"
proof (intro conjI impI)
  assume "dict_at hc envc = make_global_env Prim3 envc"
  then show "eval_lisp3 (Suc (Suc n)) (VList [VStr ''eq'', VStr ''T'', VInt 1]) envc hc = Return (VBool True) hc"
    by (simp add: eval_lisp3_body_def eval_form3_def dict_index_def dict_get_T dict_get_eq
          call3_def prim_eq_def truth_of_def py_eq_def lift_result_def)
next
  assume "dict_at hc envc = make_global_env Prim3 envc"
  then show "eval_lisp3 (Suc (Suc n)) (VList [VStr ''eq'', VStr ''NIL'', VInt 0]) envc hc = Return (VList []) hc"
    by (simp add: eval_lisp3_body_def eval_form3_def dict_index_def dict_get_NIL dict_get_eq
          call3_def prim_eq_def truth_of_def py_eq_def lift_result_def)
next
  assume "dict_at hb envb = make_global_env Prim2 envb \<and> dict_at hb 0 = make_global_env Prim2 0"
  then show "eval_lisp2 (Suc (Suc n)) (VList [VStr ''eq'', VStr ''T'', VInt 1]) envb hb = Return (VBool True) hb"
    by (simp add: eval_lisp2_body_def eval_form2_def special2_def call_global_def dict_index_def
          dict_get_T dict_get_eq prim_eq_def truth_of_def py_eq_def lift_result_def)
next
  assume "dict_at hb envb = make_global_env Prim2 envb \<and> dict_at hb 0 = make_global_env Prim2 0"
  then show "eval_lisp2 (Suc (Suc n)) (VList [VStr ''eq'', VStr ''NIL'', VInt 0]) envb hb = Return (VList []) hb"
    by (simp add: eval_lisp2_body_def eval_form2_def special2_def call_global_def dict_index_def
          dict_get_NIL dict_get_eq prim_eq_def truth_of_def py_eq_def lift_result_def)
next
  show "prim_eq (make_global_env mk a) (x :: 'c val) y = Inr (if py_eq x y then VBool True else VList [])"
    by (simp add: prim_eq_def truth_of_def dict_index_def dict_get_T dict_get_NIL)
next
  show "py_eq (VBool True :: 'c val) (VInt 1)" by (simp add: py_eq_def)
next
  show "py_eq (VList [] :: 'c val) (VInt 0) = False" by (simp add: py_eq_def)
qed

theorem eq_true_one_nil_zero_witness:
  "dict_at lisp3_init 0 = make_global_env Prim3 0
   \<and> eval_lisp3 2 (VList [VStr ''eq'', VStr ''T'', VInt 1]) 0 lisp3_init = Return (VBool True) lisp3_init
   \<and> eval_lisp3 2 (VList [VStr ''eq'', VStr ''NIL'', VInt 0]) 0 lisp3_init = Return (VList []) lisp3_init
   \<and> dict_at lisp2_init 1 = make_global_env Prim2 1
   \<and> dict_at lisp2_init 0 = make_global_env Prim2 0
   \<and> eval_lisp2 2 (VList [VStr ''eq'', VStr ''T'', VInt 1]) 1 lisp2_init = Return (VBool True) lisp2_init
   \<and> eval_lisp2 2 (VList [VStr ''eq'', VStr ''NIL'', VInt 0]) 1 lisp2_init = Return (VList []) lisp2_init"
proof -
  have c: "dict_at lisp3_init 0 = make_global_env Prim3 0"
    by (simp add: dict_at_def lisp3_init_def)
  have b: "dict_at lisp2_init 1 = make_global_env Prim2 1" "dict_at lisp2_init 0 = make_global_env Prim2 0"
    by (simp_all add: dict_at_def lisp2_init_def)
  show ?thesis
    using eq_true_one_nil_zero[where n = 0 and hc = lisp3_init and envc = 0 and hb = lisp2_init
        and envb = 1 and mk = Prim3 and a = 0 and x = "VBool True" and y = "VInt 1"]
      b c
    by (simp add: numeral_2_eq_2)
qed

text \<open>
  The claim itself fails where it says that \<^verbatim>\<open>eq\<close> does not tell boolean-false from 0:
  \<^verbatim>\<open>(eq NIL 0)\<close> is \<^verbatim>\<open>NIL\<close> in \<^verbatim>\<open>lisp3.py\<close> and in \<^verbatim>\<open>lisp2.py\<close>.
\<close>

theorem eq_nil_zero_counterexample:
  "eval_lisp3 2 (VList [VStr ''eq'', VStr ''NIL'', VInt 0]) 0 lisp3_init = Return (VList []) lisp3_init
   \<and> eval_lisp2 2 (VList [VStr ''eq'', VStr ''NIL'', VInt 0]) 1 lisp2_init = Return (VList []) lisp2_init"
  by code_simp

text \<open>
  C9, as the code has it. A value built from integers, symbols and non-empty lists,
  where every symbol is one non-empty token without white space, parenthesis or quote
  that the atom reader takes for a symbol (not for a number), is printed by
  \<^verbatim>\<open>lisp_to_str\<close> as \<open>render v\<close>, and tokenizing and parsing that text gives the value
  back with no token left: in \<^verbatim>\<open>lisp2.py\<close> (\<^verbatim>\<open>parse_str\<close>), and in \<^verbatim>\<open>lisp3.py\<close> for any
  float reader \<open>rd\<close>. The empty list, \<^verbatim>\<open>True\<close>, \<^verbatim>\<open>False\<close> and \<^verbatim>\<open>None\<close> are printed as
  \<^verbatim>\<open>NIL\<close>, \<^verbatim>\<open>T\<close> and the like and are not among these values.
\<close>

theorem render_parse_roundtrip:
  "(readable atomize v \<longrightarrow>
      lisp2_to_str v = Some (render v) \<and> parse_str (render v) = (Inr v, []))
   \<and> (readable (lisp3_atom rd) v \<longrightarrow>
      lisp3_to_str v = Some (render v)
      \<and> lisp3_parse (lisp3_atom rd) (lisp3_tokenize (render v)) = (Inr v, []))"
proof (intro conjI impI)
  assume r: "readable atomize v"
  then show "lisp2_to_str v = Some (render v)" by (rule lisp2_to_str_render)
  from r have "lisp2_tokenize (render v) = tokens_of v @ []" by (simp add: tokenize_render)
  with r show "parse_str (render v) = (Inr v, [])"
    unfolding parse_str_def by (simp only: lisp2_parse_tokens)
next
  assume r: "readable (lisp3_atom rd) v"
  then show "lisp3_to_str v = Some (render v)" by (rule lisp3_to_str_render)
  from r have "lisp3_tokenize (render v) = tokens_of v @ []" by (simp add: tokenize_render)
  with r show "lisp3_parse (lisp3_atom rd) (lisp3_tokenize (render v)) = (Inr v, [])"
    by (simp only: lisp3_parse_tokens)
qed

theorem render_parse_roundtrip_witness:
  "readable atomize (VList [VInt (- 12), VStr ''a'', VList [VStr ''quote'', VStr ''b'']] :: obj2 val)
   \<and> lisp2_to_str (VList [VInt (- 12), VStr ''a'', VList [VStr ''quote'', VStr ''b'']] :: obj2 val)
       = Some ''(-12 a (quote b))''
   \<and> parse_str ''(-12 a (quote b))''
       = (Inr (VList [VInt (- 12), VStr ''a'', VList [VStr ''quote'', VStr ''b'']] :: obj2 val), [])
   \<and> readable (lisp3_atom (\<lambda>t. None))
        (VList [VInt (- 12), VStr ''a'', VList [VStr ''quote'', VStr ''b'']] :: obj2 val)
   \<and> lisp3_parse (lisp3_atom (\<lambda>t. None)) (lisp3_tokenize ''(-12 a (quote b))'')
       = (Inr (VList [VInt (- 12), VStr ''a'', VList [VStr ''quote'', VStr ''b'']] :: obj2 val), [])"
proof -
  let ?v = "VList [VInt (- 12), VStr ''a'', VList [VStr ''quote'', VStr ''b'']] :: obj2 val"
  have a: "readable atomize ?v" by code_simp
  have b: "readable (lisp3_atom (\<lambda>t. None)) ?v" by code_simp
  have c: "render ?v = ''(-12 a (quote b))''" by code_simp
  show ?thesis
    using render_parse_roundtrip[where v = ?v and rd = "\<lambda>t. None"] a b c
    by simp
qed

text \<open>
  The claim itself fails at the atomic forms it names: the empty list is printed as
  \<^verbatim>\<open>NIL\<close> and \<^verbatim>\<open>True\<close> as \<^verbatim>\<open>T\<close>, and both texts are read back as symbols (for
  \<^verbatim>\<open>lisp3.py\<close>, with a float reader that refuses these two tokens, as \<^verbatim>\<open>float\<close> does).
\<close>

theorem nil_roundtrip_counterexample:
  "lisp2_to_str (VList [] :: obj2 val) = Some ''NIL''
   \<and> parse_str ''NIL'' = (Inr (VStr ''NIL'' :: obj2 val), [])
   \<and> lisp2_to_str (VBool True :: obj2 val) = Some ''T''
   \<and> parse_str ''T'' = (Inr (VStr ''T'' :: obj2 val), [])
   \<and> lisp3_to_str (VList [] :: obj3 val) = Some ''NIL''
   \<and> lisp3_parse (lisp3_atom (\<lambda>t. None)) (lisp3_tokenize ''NIL'') = (Inr (VStr ''NIL'' :: obj3 val), [])
   \<and> lisp3_to_str (VBool True :: obj3 val) = Some ''T''
   \<and> lisp3_parse (lisp3_atom (\<lambda>t. None)) (lisp3_tokenize ''T'') = (Inr (VStr ''T'' :: obj3 val), [])"
  by code_simp


end
